theory Spec2Isabelle
  imports Main "HOL-Library.Word"
begin

section \<open>Text, bytes and the formatting of integers\<close>

text \<open>
  Python text is modelled as \<^typ>\<open>string\<close> (one character per code point, so only
  code points below 256 are represented) and a byte string as a list of 8-bit words.
  \<open>'%s' % n\<close> for an integer \<open>n\<close> is its decimal numeral, with a leading minus sign
  when negative.
\<close>

type_synonym byte = "8 word"

type_synonym bytes = "byte list"

definition newline :: char where
  "newline = CHR 0x0A"

definition nul :: char where
  "nul = CHR 0x00"

definition digit_char :: "nat \<Rightarrow> char" where
  "digit_char d = char_of (48 + d)"

fun str_nat :: "nat \<Rightarrow> string" where
  "str_nat n = (if n < 10 then [digit_char n] else str_nat (n div 10) @ [digit_char (n mod 10)])"

declare str_nat.simps [simp del]

definition str_int :: "int \<Rightarrow> string" where
  "str_int i = (if i < 0 then CHR ''-'' # str_nat (nat (- i)) else str_nat (nat i))"

text \<open>\<open>s.startswith(p)\<close>.\<close>

definition startswith :: "'a list \<Rightarrow> 'a list \<Rightarrow> bool" where
  "startswith s p = (take (length p) s = p)"

text \<open>\<open>s.lower()\<close> on the ASCII letters (the names of encodings are ASCII).\<close>

definition lower_char :: "char \<Rightarrow> char" where
  "lower_char c = (let n = of_char c :: nat in if 65 \<le> n \<and> n \<le> 90 then char_of (n + 32) else c)"

definition str_lower :: "string \<Rightarrow> string" where
  "str_lower s = map lower_char s"

text \<open>\<open>s.rstrip(c)\<close>: every trailing \<open>c\<close> removed.\<close>

definition rstrip :: "'a \<Rightarrow> 'a list \<Rightarrow> 'a list" where
  "rstrip c s = rev (dropWhile (\<lambda>x. x = c) (rev s))"

section \<open>The offset rewriter\<close>

text \<open>
  \<open>update_lrc_offset\<close> searches the content with
  \<^verbatim>\<open>re.search(r'^(\[[^\]]*\])*?\[offset:(.*?)\]', content, re.MULTILINE)\<close>.
  The regular expression is embedded as the scanner a backtracking engine runs for it.
  A span is the pair \<open>(start(2), end(2))\<close> of the captured offset value.
\<close>

type_synonym span = "nat \<times> nat"

text \<open>\<^verbatim>\<open>[^\]]*\]\<close>: the greedy class runs to the first closing bracket (it also
  matches a newline); the result is the text after that bracket.\<close>

fun bracket_body :: "string \<Rightarrow> string option" where
  "bracket_body [] = None"
| "bracket_body (c # cs) = (if c = CHR '']'' then Some cs else bracket_body cs)"

text \<open>\<^verbatim>\<open>\[[^\]]*\]\<close> at the head of \<open>s\<close>: the text after the tag.\<close>

definition re_bracket_tag :: "string \<Rightarrow> string option" where
  "re_bracket_tag s =
     (case s of
        [] \<Rightarrow> None
      | c # cs \<Rightarrow> if c = CHR ''['' then bracket_body cs else None)"

text \<open>\<^verbatim>\<open>(.*?)\]\<close>: the lazy star first tries to close the tag, and otherwise lets the dot
  consume one character, which must not be a newline; the result is the length of
  the captured value.\<close>

fun lazy_value :: "string \<Rightarrow> nat option" where
  "lazy_value [] = None"
| "lazy_value (c # cs) =
     (if c = CHR '']'' then Some 0
      else if c = newline then None
      else map_option Suc (lazy_value cs))"

text \<open>\<^verbatim>\<open>\[offset:(.*?)\]\<close> at the head of \<open>s\<close>: the span of group 2.\<close>

definition re_offset_tag :: "string \<Rightarrow> span option" where
  "re_offset_tag s =
     (if take 8 s = ''[offset:'' then map_option (\<lambda>n. (8, 8 + n)) (lazy_value (drop 8 s))
      else None)"

definition shift :: "nat \<Rightarrow> span \<Rightarrow> span" where
  "shift k sp = (k + fst sp, k + snd sp)"

text \<open>The body of the pattern after the anchor, tried at the head of \<open>s\<close>: the lazy
  repetition first tries the offset tag with no further bracket tag, and only when
  that fails consumes one more bracket tag.\<close>

function re_match :: "string \<Rightarrow> span option" where
  "re_match s =
     (case re_offset_tag s of
        Some sp \<Rightarrow> Some sp
      | None \<Rightarrow>
          (case re_bracket_tag s of
             None \<Rightarrow> None
           | Some rest \<Rightarrow> map_option (shift (length s - length rest)) (re_match rest)))"
  by pat_completeness auto
termination
proof (relation "measure length")
  show "wf (measure (length :: string \<Rightarrow> nat))" by simp
next
  fix s rest :: string
  assume t: "re_bracket_tag s = Some rest"
  have b: "bracket_body u = Some r \<Longrightarrow> length r < length u" for u r
    by (induction u) (auto split: if_splits)
  from t show "(rest, s) \<in> measure length"
    by (cases s) (auto simp: re_bracket_tag_def split: if_splits dest: b)
qed

declare re_match.simps [simp del]

text \<open>\<open>re.search\<close> with \<open>re.MULTILINE\<close>: the anchor holds at the start of the text and
  right after every newline; the leftmost start that matches wins.\<close>

fun re_search_from :: "bool \<Rightarrow> string \<Rightarrow> span option" where
  "re_search_from bol [] = (if bol then re_match [] else None)"
| "re_search_from bol (c # cs) =
     (case (if bol then re_match (c # cs) else None) of
        Some sp \<Rightarrow> Some sp
      | None \<Rightarrow> map_option (shift 1) (re_search_from (c = newline) cs))"

definition re_search :: "string \<Rightarrow> span option" where
  "re_search content = re_search_from True content"

definition update_lrc_offset :: "string \<Rightarrow> int \<Rightarrow> string" where
  "update_lrc_offset content offset =
     (case re_search content of
        None \<Rightarrow> ''[offset:'' @ str_int offset @ '']'' @ [newline] @ content
      | Some (s, e) \<Rightarrow> take s content @ str_int offset @ drop e content)"

section \<open>Errors, the environment and the state\<close>

text \<open>
  Every exception the modelled code can raise is a value: the three exceptions the
  service defines, the built-in ones raised by a dictionary lookup with a missing
  key, by \<open>str + None\<close> and by a codec lookup with an unknown name, and the ones the
  library raises that the code does not catch: \<open>ValueError\<close> (from \<open>open\<close> and
  \<open>os.makedirs\<close> on a path with an embedded NUL, from \<open>urlparse\<close> on a malformed
  network location) and \<open>OSError\<close> (from \<open>write\<close> on an open file).
\<close>

datatype error =
    InvalidUriException string
  | CannotLoadLrcException string
  | CannotSaveLrcException string
  | KeyError string
  | TypeError
  | LookupError string
  | ValueError
  | OSError

text \<open>The two fields of \<open>urllib.parse.ParseResult\<close> that the code reads.\<close>

record urlparts =
  scheme :: string
  path :: string

text \<open>
  The collaborators outside the two source files are parameters of the model:
  \<^item> \<open>detect\<close>: \<open>chardet.detect(content)['encoding']\<close>;
  \<^item> \<open>codec\<close>: the decoder \<open>bytes.decode(name, 'replace')\<close> runs, \<open>None\<close> when the name is
    unknown (Python raises \<open>LookupError\<close>);
  \<^item> \<open>encode_utf8\<close>: \<open>str.encode('utf-8')\<close>;
  \<^item> \<open>urlparse\<close>: \<open>urllib.parse.urlparse\<close>, \<open>Inl\<close> the exception when it raises;
    \<open>url2pathname\<close>, \<open>pathname2url\<close>: the functions of \<open>urllib.request\<close>;
  \<^item> \<open>home_dir\<close>, \<open>pw_dir\<close>: what \<open>os.path.expanduser\<close> reads, the home directory of the
    current user (\<open>HOME\<close>, else the password database) and of a named user;
  \<^item> \<open>os_read\<close>: \<open>open(path, 'rb')\<close> and \<open>read()\<close>: \<open>Inr (Some content)\<close>, \<open>Inr None\<close> on
    \<open>IOError\<close>, which the code catches, \<open>Inl\<close> any other exception, which it does not;
    \<open>os_isfile\<close>, \<open>os_isdir\<close>: \<open>os.path.isfile\<close>, \<open>os.path.isdir\<close>, which do not raise;
    \<open>os_makedirs\<close>: \<open>os.makedirs(path, 0o755)\<close>: \<open>Inr (Some fs)\<close> the file system with the
    directories, \<open>Inr None\<close> on \<open>OSError\<close>, which the code catches, \<open>Inl\<close> any other
    exception;
    \<open>os_write\<close>: \<open>open(path, 'wb')\<close> and \<open>write(content)\<close>: \<open>Inr (Some fs)\<close> the file system
    with the file written, \<open>Inr None\<close> when \<open>open\<close> raises \<open>IOError\<close>, which the code
    catches, \<open>Inl\<close> any other exception of \<open>open\<close> and every exception of \<open>write\<close>;
  \<^item> \<open>db_find\<close>, \<open>db_assign\<close>, \<open>db_delete\<close>: the association store \<open>lrcdb.LrcDb\<close>;
    \<open>find\<close> gives \<open>None\<close> when nothing is recorded;
  \<^item> \<open>get_string_list\<close>: the configuration; \<open>expand_path\<close>, \<open>expand_file\<close>: the pattern
    expander, \<open>None\<close> for \<open>PatternException\<close>.
  Track metadata is a value of the type \<open>'m\<close>, compared by equality.
\<close>

record ('m, 'db, 'fs) env =
  detect :: "bytes \<Rightarrow> string option"
  codec :: "string \<Rightarrow> (bytes \<Rightarrow> string) option"
  encode_utf8 :: "string \<Rightarrow> bytes"
  urlparse :: "string \<Rightarrow> error + urlparts"
  url2pathname :: "string \<Rightarrow> string"
  pathname2url :: "string \<Rightarrow> string"
  home_dir :: "string option"
  pw_dir :: "string \<Rightarrow> string option"
  os_read :: "'fs \<Rightarrow> string \<Rightarrow> error + bytes option"
  os_isfile :: "'fs \<Rightarrow> string \<Rightarrow> bool"
  os_isdir :: "'fs \<Rightarrow> string \<Rightarrow> bool"
  os_makedirs :: "'fs \<Rightarrow> string \<Rightarrow> error + 'fs option"
  os_write :: "'fs \<Rightarrow> string \<Rightarrow> bytes \<Rightarrow> error + 'fs option"
  db_find :: "'db \<Rightarrow> 'm \<Rightarrow> string option"
  db_assign :: "'db \<Rightarrow> 'm \<Rightarrow> string \<Rightarrow> 'db"
  db_delete :: "'db \<Rightarrow> 'm \<Rightarrow> 'db"
  get_string_list :: "string \<Rightarrow> string list \<Rightarrow> string list"
  expand_path :: "string \<Rightarrow> 'm \<Rightarrow> string option"
  expand_file :: "string \<Rightarrow> 'm \<Rightarrow> string option"

text \<open>A call of the operating system on the file system, as recorded in the trace.\<close>

datatype fs_call =
    OpenRead string
  | IsFile string
  | IsDir string
  | MakeDirs string
  | OpenWrite string

text \<open>
  The mutable state: the file system, the association store, the current track
  (\<open>self._metadata\<close>), the number of \<open>CurrentLyricsChanged\<close> signals emitted, and the
  file-system calls made so far.
\<close>

record ('m, 'db, 'fs) world =
  fs :: 'fs
  db :: 'db
  current :: 'm
  signals :: nat
  trace :: "fs_call list"

definition sys_open_read ::
  "('m, 'db, 'fs) env \<Rightarrow> string \<Rightarrow> ('m, 'db, 'fs) world \<Rightarrow>
     (error + bytes option) \<times> ('m, 'db, 'fs) world" where
  "sys_open_read env p w = (os_read env (fs w) p, w\<lparr>trace := trace w @ [OpenRead p]\<rparr>)"

definition sys_isfile ::
  "('m, 'db, 'fs) env \<Rightarrow> string \<Rightarrow> ('m, 'db, 'fs) world \<Rightarrow> bool \<times> ('m, 'db, 'fs) world" where
  "sys_isfile env p w = (os_isfile env (fs w) p, w\<lparr>trace := trace w @ [IsFile p]\<rparr>)"

definition sys_isdir ::
  "('m, 'db, 'fs) env \<Rightarrow> string \<Rightarrow> ('m, 'db, 'fs) world \<Rightarrow> bool \<times> ('m, 'db, 'fs) world" where
  "sys_isdir env p w = (os_isdir env (fs w) p, w\<lparr>trace := trace w @ [IsDir p]\<rparr>)"

definition sys_makedirs ::
  "('m, 'db, 'fs) env \<Rightarrow> string \<Rightarrow> ('m, 'db, 'fs) world \<Rightarrow> (error + bool) \<times> ('m, 'db, 'fs) world" where
  "sys_makedirs env p w =
     (case os_makedirs env (fs w) p of
        Inl err \<Rightarrow> (Inl err, w\<lparr>trace := trace w @ [MakeDirs p]\<rparr>)
      | Inr None \<Rightarrow> (Inr False, w\<lparr>trace := trace w @ [MakeDirs p]\<rparr>)
      | Inr (Some f) \<Rightarrow> (Inr True, w\<lparr>fs := f, trace := trace w @ [MakeDirs p]\<rparr>))"

definition sys_open_write ::
  "('m, 'db, 'fs) env \<Rightarrow> string \<Rightarrow> bytes \<Rightarrow> ('m, 'db, 'fs) world \<Rightarrow>
     (error + bool) \<times> ('m, 'db, 'fs) world" where
  "sys_open_write env p content w =
     (case os_write env (fs w) p content of
        Inl err \<Rightarrow> (Inl err, w\<lparr>trace := trace w @ [OpenWrite p]\<rparr>)
      | Inr None \<Rightarrow> (Inr False, w\<lparr>trace := trace w @ [OpenWrite p]\<rparr>)
      | Inr (Some f) \<Rightarrow> (Inr True, w\<lparr>fs := f, trace := trace w @ [OpenWrite p]\<rparr>))"

section \<open>Path functions of the standard library\<close>

text \<open>\<open>posixpath.isabs\<close>, \<open>posixpath.join\<close> of two components, \<open>posixpath.dirname\<close> and
  \<open>posixpath.expanduser\<close>.\<close>

definition os_path_isabs :: "string \<Rightarrow> bool" where
  "os_path_isabs p = startswith p ''/''"

definition os_path_join :: "string \<Rightarrow> string \<Rightarrow> string" where
  "os_path_join a b =
     (if startswith b ''/'' then b
      else if a = [] \<or> last a = CHR ''/'' then a @ b
      else a @ ''/'' @ b)"

definition os_path_dirname :: "string \<Rightarrow> string" where
  "os_path_dirname p =
     (let head = rev (dropWhile (\<lambda>c. c \<noteq> CHR ''/'') (rev p)) in
      if head \<noteq> [] \<and> head \<noteq> replicate (length head) (CHR ''/'') then rstrip (CHR ''/'') head
      else head)"

text \<open>
  \<open>expanduser\<close>: a path that does not start with a tilde is returned as it is. Else the
  user name is the text between the tilde and the first slash (\<open>path[1:i]\<close>); an empty
  name stands for the current user. When the home directory is not known the path is
  returned as it is; else the result is the home directory without trailing slashes,
  then \<open>path[i:]\<close>, and \<open>/\<close> when that is empty.
\<close>

definition expanduser :: "('m, 'db, 'fs) env \<Rightarrow> string \<Rightarrow> string" where
  "expanduser env p =
     (if \<not> startswith p ''~'' then p
      else
        (let name = takeWhile (\<lambda>c. c \<noteq> CHR ''/'') (tl p);
             rest = dropWhile (\<lambda>c. c \<noteq> CHR ''/'') (tl p);
             userhome = (if name = [] then home_dir env else pw_dir env name)
         in case userhome of
              None \<Rightarrow> p
            | Some h \<Rightarrow> (let r = rstrip (CHR ''/'') h @ rest in if r = [] then ''/'' else r)))"

section \<open>\<open>python/utils.py\<close>\<close>

definition path2uri :: "('m, 'db, 'fs) env \<Rightarrow> string \<Rightarrow> string" where
  "path2uri env p =
     (let p = expanduser env p in
      if \<not> os_path_isabs p then p
      else ''file://'' @ pathname2url env p)"

section \<open>\<open>daemon/lyrics.py\<close>: decoding, loading and saving\<close>

definition DEFAULT_FILE_PATTERNS :: "string list" where
  "DEFAULT_FILE_PATTERNS = [''%p-%t'', ''%t-%p'', ''%f'', ''%t'']"

definition DEFAULT_PATH_PATTERNS :: "string list" where
  "DEFAULT_PATH_PATTERNS = [''~/.lyrics'', ''%'']"

definition SUPPORTED_SCHEMES :: "string list" where
  "SUPPORTED_SCHEMES = [''file'', ''none'']"

definition DETECT_CHARSET_GUESS_MIN_LEN :: nat where
  "DETECT_CHARSET_GUESS_MIN_LEN = 40"

definition DETECT_CHARSET_GUESS_MAX_LEN :: nat where
  "DETECT_CHARSET_GUESS_MAX_LEN = 100"

text \<open>Python's truth of an optional string: \<open>None\<close> and the empty string are false.\<close>

definition truthy :: "string option \<Rightarrow> bool" where
  "truthy e = (case e of None \<Rightarrow> False | Some s \<Rightarrow> s \<noteq> [])"

text \<open>
  \<open>decode_by_charset\<close>. After the second detection the code evaluates
  \<open>'guess encoding from part: ' + encoding\<close> for its log message, which raises
  \<open>TypeError\<close> when \<open>encoding\<close> is \<open>None\<close>.
\<close>

definition decode_by_charset :: "('m, 'db, 'fs) env \<Rightarrow> bytes \<Rightarrow> error + string" where
  "decode_by_charset env content =
     (let encoding = detect env content in
      case
        (if \<not> truthy encoding \<and> length content > DETECT_CHARSET_GUESS_MIN_LEN then
           (let content_half = length content div 2;
                slice_end = min (max DETECT_CHARSET_GUESS_MIN_LEN content_half)
                              DETECT_CHARSET_GUESS_MAX_LEN
            in case detect env (take slice_end content) of
                 None \<Rightarrow> Inl TypeError
               | Some e \<Rightarrow> Inr (Some e))
         else Inr encoding)
      of
        Inl err \<Rightarrow> Inl err
      | Inr encoding \<Rightarrow>
          (let encoding = (case encoding of None \<Rightarrow> ''utf-8'' | Some e \<Rightarrow> if e = [] then ''utf-8'' else e);
               encoding = str_lower encoding;
               encoding =
                 (if encoding = ''ascii'' then ''utf-8''
                  else if encoding = ''gb2312'' \<or> encoding = ''gbk'' then ''gb18030''
                  else if encoding = ''big5'' then ''big5hkscs''
                  else encoding)
           in case codec env encoding of
                None \<Rightarrow> Inl (LookupError encoding)
              | Some decode \<Rightarrow> Inr (decode content)))"

fun is_valid_uri_from :: "string list \<Rightarrow> string \<Rightarrow> bool" where
  "is_valid_uri_from [] uri = False"
| "is_valid_uri_from (s # ss) uri =
     (if startswith uri (s @ '':'') then True else is_valid_uri_from ss uri)"

definition is_valid_uri :: "string \<Rightarrow> bool" where
  "is_valid_uri uri = is_valid_uri_from SUPPORTED_SCHEMES uri"

text \<open>\<open>ensure_uri_scheme\<close> is also called with \<open>None\<close>, which it returns.\<close>

definition ensure_uri_scheme ::
  "('m, 'db, 'fs) env \<Rightarrow> string option \<Rightarrow> error + string option" where
  "ensure_uri_scheme env uri =
     (case uri of
        None \<Rightarrow> Inr None
      | Some u \<Rightarrow>
          if u \<noteq> [] then
            (case urlparse env u of
               Inl err \<Rightarrow> Inl err
             | Inr url_parts \<Rightarrow>
                 if scheme url_parts = [] then Inr (Some (path2uri env u)) else Inr (Some u))
          else Inr (Some u))"

text \<open>\<open>_load_from_file\<close>: the \<open>try\<close> turns \<open>IOError\<close> into \<open>None\<close> and lets every other
  exception of \<open>open\<close> and \<open>read\<close> through.\<close>

definition load_from_file ::
  "('m, 'db, 'fs) env \<Rightarrow> urlparts \<Rightarrow> ('m, 'db, 'fs) world \<Rightarrow>
     (error + bytes option) \<times> ('m, 'db, 'fs) world" where
  "load_from_file env urlparts w = sys_open_read env (url2pathname env (path urlparts)) w"

definition URI_LOAD_HANDLERS ::
  "string \<rightharpoonup> (('m, 'db, 'fs) env \<Rightarrow> urlparts \<Rightarrow> ('m, 'db, 'fs) world \<Rightarrow>
     (error + bytes option) \<times> ('m, 'db, 'fs) world)" where
  "URI_LOAD_HANDLERS =
     [''file'' \<mapsto> load_from_file, ''none'' \<mapsto> (\<lambda>env uri w. (Inr (Some []), w))]"

definition load_from_uri ::
  "('m, 'db, 'fs) env \<Rightarrow> string \<Rightarrow> ('m, 'db, 'fs) world \<Rightarrow> (error + string option) \<times> ('m, 'db, 'fs) world" where
  "load_from_uri env uri w =
     (case urlparse env uri of
        Inl err \<Rightarrow> (Inl err, w)
      | Inr url_parts \<Rightarrow>
          (case URI_LOAD_HANDLERS (scheme url_parts) of
             None \<Rightarrow> (Inl (KeyError (scheme url_parts)), w)
           | Some handler \<Rightarrow>
               (case handler env url_parts w of
                  (Inl err, w') \<Rightarrow> (Inl err, w')
                | (Inr None, w') \<Rightarrow> (Inr None, w')
                | (Inr (Some content), w') \<Rightarrow>
                    (case decode_by_charset env content of
                       Inl err \<Rightarrow> (Inl err, w')
                     | Inr decoded \<Rightarrow> (Inr (Some (filter (\<lambda>c. c \<noteq> nul) decoded)), w')))))"

text \<open>\<open>_save_to_file\<close>: \<open>OSError\<close> of \<open>os.makedirs\<close> and \<open>IOError\<close> of \<open>open\<close> give \<open>False\<close>;
  every other exception goes through.\<close>

definition save_to_file ::
  "('m, 'db, 'fs) env \<Rightarrow> urlparts \<Rightarrow> bytes \<Rightarrow> bool \<Rightarrow> ('m, 'db, 'fs) world \<Rightarrow>
     (error + bool) \<times> ('m, 'db, 'fs) world" where
  "save_to_file env urlparts content create w =
     (let p = url2pathname env (path urlparts) in
      if \<not> create then
        (let (isfile, w1) = sys_isfile env p w in
         if \<not> isfile then (Inr False, w1) else sys_open_write env p content w1)
      else
        (let dirname = os_path_dirname p;
             (isdir, w1) = sys_isdir env dirname w in
         if \<not> isdir then
           (case sys_makedirs env (os_path_dirname p) w1 of
              (Inl err, w2) \<Rightarrow> (Inl err, w2)
            | (Inr made, w2) \<Rightarrow>
                if \<not> made then (Inr False, w2) else sys_open_write env p content w2)
         else sys_open_write env p content w1))"

definition URI_SAVE_HANDLERS ::
  "string \<rightharpoonup> (('m, 'db, 'fs) env \<Rightarrow> urlparts \<Rightarrow> bytes \<Rightarrow> bool \<Rightarrow> ('m, 'db, 'fs) world \<Rightarrow>
     (error + bool) \<times> ('m, 'db, 'fs) world)" where
  "URI_SAVE_HANDLERS =
     [''file'' \<mapsto> save_to_file,
      ''none'' \<mapsto> (\<lambda>env urlparts content create w. (Inr True, w))]"

definition save_to_uri ::
  "('m, 'db, 'fs) env \<Rightarrow> string \<Rightarrow> bytes \<Rightarrow> bool \<Rightarrow> ('m, 'db, 'fs) world \<Rightarrow> (error + bool) \<times> ('m, 'db, 'fs) world" where
  "save_to_uri env uri content create w =
     (case urlparse env uri of
        Inl err \<Rightarrow> (Inl err, w)
      | Inr url_parts \<Rightarrow>
          (case URI_SAVE_HANDLERS (scheme url_parts) of
             None \<Rightarrow> (Inl (KeyError (scheme url_parts)), w)
           | Some handler \<Rightarrow> handler env url_parts content create w))"

section \<open>\<open>daemon/lyrics.py\<close>: the service\<close>

definition find_lrc_from_db ::
  "('m, 'db, 'fs) env \<Rightarrow> 'm \<Rightarrow> ('m, 'db, 'fs) world \<Rightarrow> error + string option" where
  "find_lrc_from_db env metadata w =
     (let uri = db_find env (db w) metadata in
      if uri = Some [] then Inr (Some ''none:'') else ensure_uri_scheme env uri)"

text \<open>The inner loop of \<open>_expand_patterns\<close> over the file patterns, under one expanded
  path; \<open>None\<close> when the loop ends without a \<open>return\<close>.\<close>

fun expand_patterns_files ::
  "('m, 'db, 'fs) env \<Rightarrow> 'm \<Rightarrow> string \<Rightarrow> string list \<Rightarrow> ('m, 'db, 'fs) world \<Rightarrow>
     string option \<times> ('m, 'db, 'fs) world" where
  "expand_patterns_files env metadata dir [] w = (None, w)"
| "expand_patterns_files env metadata dir (file_pat # file_pats) w =
     (case expand_file env file_pat metadata of
        None \<Rightarrow> expand_patterns_files env metadata dir file_pats w
      | Some filename \<Rightarrow>
          (let fullpath = os_path_join dir (filename @ ''.lrc'');
               (isfile, w1) = sys_isfile env fullpath w in
           if isfile then (Some fullpath, w1)
           else expand_patterns_files env metadata dir file_pats w1))"

fun expand_patterns_paths ::
  "('m, 'db, 'fs) env \<Rightarrow> 'm \<Rightarrow> string list \<Rightarrow> string list \<Rightarrow> ('m, 'db, 'fs) world \<Rightarrow>
     string option \<times> ('m, 'db, 'fs) world" where
  "expand_patterns_paths env metadata file_patterns [] w = (None, w)"
| "expand_patterns_paths env metadata file_patterns (path_pat # path_pats) w =
     (case expand_path env path_pat metadata of
        None \<Rightarrow> expand_patterns_paths env metadata file_patterns path_pats w
      | Some dir \<Rightarrow>
          (case expand_patterns_files env metadata dir file_patterns w of
             (Some fullpath, w1) \<Rightarrow> (Some fullpath, w1)
           | (None, w1) \<Rightarrow> expand_patterns_paths env metadata file_patterns path_pats w1))"

definition expand_patterns ::
  "('m, 'db, 'fs) env \<Rightarrow> 'm \<Rightarrow> ('m, 'db, 'fs) world \<Rightarrow> string option \<times> ('m, 'db, 'fs) world" where
  "expand_patterns env metadata w =
     (let file_patterns = get_string_list env ''General/lrc-filename'' DEFAULT_FILE_PATTERNS;
          path_patterns = get_string_list env ''General/lrc-path'' DEFAULT_PATH_PATTERNS
      in expand_patterns_paths env metadata file_patterns path_patterns w)"

definition find_lrc_by_pattern ::
  "('m, 'db, 'fs) env \<Rightarrow> 'm \<Rightarrow> ('m, 'db, 'fs) world \<Rightarrow>
     (error + string option) \<times> ('m, 'db, 'fs) world" where
  "find_lrc_by_pattern env metadata w =
     (let (found, w1) = expand_patterns env metadata w in (ensure_uri_scheme env found, w1))"

text \<open>The inner loop of \<open>_save_to_patterns\<close>; \<open>Inr None\<close> when the loop ends without a
  \<open>return\<close>.\<close>

fun save_to_patterns_files ::
  "('m, 'db, 'fs) env \<Rightarrow> 'm \<Rightarrow> bytes \<Rightarrow> string \<Rightarrow> string list \<Rightarrow> ('m, 'db, 'fs) world \<Rightarrow>
     (error + string option) \<times> ('m, 'db, 'fs) world" where
  "save_to_patterns_files env metadata content dir [] w = (Inr None, w)"
| "save_to_patterns_files env metadata content dir (file_pat # file_pats) w =
     (case expand_file env file_pat metadata of
        None \<Rightarrow> save_to_patterns_files env metadata content dir file_pats w
      | Some filename \<Rightarrow>
          (let fullpath = os_path_join dir (filename @ ''.lrc'');
               uri = path2uri env fullpath in
           case save_to_uri env uri content True w of
             (Inl err, w1) \<Rightarrow> (Inl err, w1)
           | (Inr saved, w1) \<Rightarrow>
               if saved then (Inr (Some uri), w1)
               else save_to_patterns_files env metadata content dir file_pats w1))"

fun save_to_patterns_paths ::
  "('m, 'db, 'fs) env \<Rightarrow> 'm \<Rightarrow> bytes \<Rightarrow> string list \<Rightarrow> string list \<Rightarrow> ('m, 'db, 'fs) world \<Rightarrow>
     (error + string) \<times> ('m, 'db, 'fs) world" where
  "save_to_patterns_paths env metadata content file_patterns [] w = (Inr [], w)"
| "save_to_patterns_paths env metadata content file_patterns (path_pat # path_pats) w =
     (case expand_path env path_pat metadata of
        None \<Rightarrow> save_to_patterns_paths env metadata content file_patterns path_pats w
      | Some dir \<Rightarrow>
          (case save_to_patterns_files env metadata content dir file_patterns w of
             (Inl err, w1) \<Rightarrow> (Inl err, w1)
           | (Inr (Some uri), w1) \<Rightarrow> (Inr uri, w1)
           | (Inr None, w1) \<Rightarrow>
               save_to_patterns_paths env metadata content file_patterns path_pats w1))"

definition save_to_patterns ::
  "('m, 'db, 'fs) env \<Rightarrow> 'm \<Rightarrow> bytes \<Rightarrow> ('m, 'db, 'fs) world \<Rightarrow> (error + string) \<times> ('m, 'db, 'fs) world" where
  "save_to_patterns env metadata content w =
     (let file_patterns = get_string_list env ''General/lrc-filename'' DEFAULT_FILE_PATTERNS;
          path_patterns = get_string_list env ''General/lrc-path'' DEFAULT_PATH_PATTERNS
      in save_to_patterns_paths env metadata content file_patterns path_patterns w)"

definition CurrentLyricsChanged :: "('m, 'db, 'fs) world \<Rightarrow> ('m, 'db, 'fs) world" where
  "CurrentLyricsChanged w = w\<lparr>signals := signals w + 1\<rparr>"

definition assign_lrc_uri ::
  "('m, 'db, 'fs) env \<Rightarrow> 'm \<Rightarrow> string \<Rightarrow> ('m, 'db, 'fs) world \<Rightarrow> ('m, 'db, 'fs) world" where
  "assign_lrc_uri env metadata uri w =
     (let w1 = w\<lparr>db := db_assign env (db w) metadata uri\<rparr> in
      if metadata = current w1 then CurrentLyricsChanged w1 else w1)"

definition AssignLyricFile ::
  "('m, 'db, 'fs) env \<Rightarrow> 'm \<Rightarrow> string \<Rightarrow> ('m, 'db, 'fs) world \<Rightarrow> ('m, 'db, 'fs) world" where
  "AssignLyricFile env metadata uri w = assign_lrc_uri env metadata uri w"

text \<open>\<open>GetRawLyrics\<close>: the result is \<open>(found, uri, content)\<close>. The second part runs with
  \<open>lrc = None\<close>, since the first part returns when its load gives a text. Neither
  call of \<open>load_from_uri\<close> stands in a \<open>try\<close>: what it raises, \<open>GetRawLyrics\<close> raises.\<close>

definition GetRawLyrics_by_pattern ::
  "('m, 'db, 'fs) env \<Rightarrow> 'm \<Rightarrow> ('m, 'db, 'fs) world \<Rightarrow>
     (error + bool \<times> string \<times> string) \<times> ('m, 'db, 'fs) world" where
  "GetRawLyrics_by_pattern env metadata w =
     (case find_lrc_by_pattern env metadata w of
        (Inl err, w1) \<Rightarrow> (Inl err, w1)
      | (Inr uri, w1) \<Rightarrow>
          if truthy uri then
            (case uri of
               None \<Rightarrow> (Inr (False, [], []), w1)
             | Some u \<Rightarrow>
                 (case load_from_uri env u w1 of
                    (Inl err, w2) \<Rightarrow> (Inl err, w2)
                  | (Inr None, w2) \<Rightarrow> (Inr (False, [], []), w2)
                  | (Inr (Some lrc), w2) \<Rightarrow> (Inr (True, u, lrc), w2)))
          else (Inr (False, [], []), w1))"

definition GetRawLyrics ::
  "('m, 'db, 'fs) env \<Rightarrow> 'm \<Rightarrow> ('m, 'db, 'fs) world \<Rightarrow>
     (error + bool \<times> string \<times> string) \<times> ('m, 'db, 'fs) world" where
  "GetRawLyrics env metadata w =
     (case find_lrc_from_db env metadata w of
        Inl err \<Rightarrow> (Inl err, w)
      | Inr uri \<Rightarrow>
          if truthy uri then
            (case uri of
               None \<Rightarrow> GetRawLyrics_by_pattern env metadata w
             | Some u \<Rightarrow>
                 if u = ''none:'' then (Inr (True, u, []), w)
                 else
                   (case load_from_uri env u w of
                      (Inl err, w1) \<Rightarrow> (Inl err, w1)
                    | (Inr (Some lrc), w1) \<Rightarrow> (Inr (True, u, lrc), w1)
                    | (Inr None, w1) \<Rightarrow> GetRawLyrics_by_pattern env metadata w1))
          else GetRawLyrics_by_pattern env metadata w)"

definition GetCurrentRawLyrics ::
  "('m, 'db, 'fs) env \<Rightarrow> ('m, 'db, 'fs) world \<Rightarrow>
     (error + bool \<times> string \<times> string) \<times> ('m, 'db, 'fs) world" where
  "GetCurrentRawLyrics env w = GetRawLyrics env (current w) w"

text \<open>\<open>SetLyricContent\<close>: the state a raised exception leaves behind is part of the
  result.\<close>

definition SetLyricContent ::
  "('m, 'db, 'fs) env \<Rightarrow> 'm \<Rightarrow> bytes \<Rightarrow> ('m, 'db, 'fs) world \<Rightarrow> (error + string) \<times> ('m, 'db, 'fs) world" where
  "SetLyricContent env metadata content w =
     (let w1 = w\<lparr>db := db_delete env (db w) metadata\<rparr> in
      case save_to_patterns env metadata (rstrip 0 content) w1 of
        (Inl err, w2) \<Rightarrow> (Inl err, w2)
      | (Inr uri, w2) \<Rightarrow>
          if uri \<noteq> [] \<and> metadata = current w2 then (Inr uri, CurrentLyricsChanged w2)
          else (Inr uri, w2))"

definition SetOffset ::
  "('m, 'db, 'fs) env \<Rightarrow> string \<Rightarrow> int \<Rightarrow> ('m, 'db, 'fs) world \<Rightarrow> (error + unit) \<times> ('m, 'db, 'fs) world" where
  "SetOffset env uri offset_ms w =
     (if \<not> is_valid_uri uri then (Inl (InvalidUriException uri), w)
      else
        (case load_from_uri env uri w of
           (Inl err, w1) \<Rightarrow> (Inl err, w1)
         | (Inr None, w1) \<Rightarrow> (Inl (CannotLoadLrcException uri), w1)
         | (Inr (Some content), w1) \<Rightarrow>
             (let content = encode_utf8 env (update_lrc_offset content offset_ms) in
              case save_to_uri env uri content True w1 of
                (Inl err, w2) \<Rightarrow> (Inl err, w2)
              | (Inr saved, w2) \<Rightarrow>
                  if \<not> saved then (Inl (CannotSaveLrcException uri), w2)
                  else (Inr (), w2))))"

section \<open>Notions used to state the properties\<close>

text \<open>A value the lazy group can capture and the rewriter can write: it holds neither
  a closing bracket nor a newline.\<close>

definition plain_value :: "string \<Rightarrow> bool" where
  "plain_value v = (CHR '']'' \<notin> set v \<and> newline \<notin> set v)"

definition offset_key :: string where
  "offset_key = ''[offset:''"



text \<open>
  The name of the codec \<open>decode_by_charset\<close> decodes the empty input with: the name the
  detector gives for it, or \<open>utf-8\<close> when it gives none (an empty input is not longer
  than \<open>DETECT_CHARSET_GUESS_MIN_LEN\<close>, so there is no second detection), in lower
  case and with the aliases of the source replaced.
\<close>

definition empty_input_encoding :: "('m, 'db, 'fs) env \<Rightarrow> string" where
  "empty_input_encoding env =
     (let encoding = (case detect env [] of None \<Rightarrow> ''utf-8'' | Some e \<Rightarrow> if e = [] then ''utf-8'' else e);
          encoding = str_lower encoding
      in if encoding = ''ascii'' then ''utf-8''
         else if encoding = ''gb2312'' \<or> encoding = ''gbk'' then ''gb18030''
         else if encoding = ''big5'' then ''big5hkscs''
         else encoding)"

text \<open>The part of the state that the file-system calls leave alone.\<close>

definition same_service_state :: "('m, 'db, 'fs) world \<Rightarrow> ('m, 'db, 'fs) world \<Rightarrow> bool" where
  "same_service_state w w' = (db w' = db w \<and> signals w' = signals w \<and> current w' = current w)"

section \<open>An example environment\<close>

text \<open>
  A concrete environment for the examples. Metadata is a track title; the association
  store and the file system are association lists, and no call of the library
  raises. The detector determines nothing, the only codec is UTF-8 on ASCII bytes
  with a question mark for every other byte, and the home directory is \<open>/home/u\<close>. The
  URL functions are those of \<open>urllib\<close> on text without percent escapes and control
  characters: the scheme is the text before the first colon when it starts with a
  letter and consists of letters, digits, plus, minus and dot; the path follows the
  scheme and the network location and ends at the first \<open>?\<close> or \<open>#\<close>. Only the
  pattern \<open>~/.lyrics\<close> expands as a path and only the title pattern \<open>%t\<close> as a file
  name.
\<close>

definition is_alpha :: "char \<Rightarrow> bool" where
  "is_alpha c = (let n = of_char c :: nat in (65 \<le> n \<and> n \<le> 90) \<or> (97 \<le> n \<and> n \<le> 122))"

definition is_scheme_char :: "char \<Rightarrow> bool" where
  "is_scheme_char c =
     (let n = of_char c :: nat in
      is_alpha c \<or> (48 \<le> n \<and> n \<le> 57) \<or> c = CHR ''+'' \<or> c = CHR ''-'' \<or> c = CHR ''.'')"

definition strip_netloc :: "string \<Rightarrow> string" where
  "strip_netloc u =
     (if startswith u ''//''
      then dropWhile (\<lambda>c. c \<noteq> CHR ''/'' \<and> c \<noteq> CHR ''?'' \<and> c \<noteq> CHR ''#'') (drop 2 u)
      else u)"

definition example_urlparse :: "string \<Rightarrow> urlparts" where
  "example_urlparse uri =
     (let pre = takeWhile (\<lambda>c. c \<noteq> CHR '':'') uri;
          cut = takeWhile (\<lambda>c. c \<noteq> CHR ''#'' \<and> c \<noteq> CHR ''?'')
      in if length pre < length uri \<and> pre \<noteq> [] \<and> is_alpha (hd pre) \<and> list_all is_scheme_char pre
         then \<lparr>scheme = str_lower pre, path = cut (strip_netloc (drop (length pre + 1) uri))\<rparr>
         else \<lparr>scheme = [], path = cut (strip_netloc uri)\<rparr>)"

definition example_decode :: "bytes \<Rightarrow> string" where
  "example_decode bs = map (\<lambda>b. if unat b < 128 then char_of (unat b) else CHR ''?'') bs"

definition example_encode :: "string \<Rightarrow> bytes" where
  "example_encode s =
     concat (map (\<lambda>c. let n = of_char c :: nat in
                       if n < 128 then [of_nat n] else [of_nat (192 + n div 64), of_nat (128 + n mod 64)]) s)"

definition example_env :: "(string, (string \<times> string) list, (string \<times> bytes) list) env" where
  "example_env =
     \<lparr>detect = (\<lambda>content. None),
      codec = (\<lambda>name. if name = ''utf-8'' then Some example_decode else None),
      encode_utf8 = example_encode,
      urlparse = (\<lambda>uri. Inr (example_urlparse uri)),
      url2pathname = (\<lambda>p. p),
      pathname2url = (\<lambda>p. p),
      home_dir = Some ''/home/u'',
      pw_dir = (\<lambda>name. None),
      os_read = (\<lambda>f p. Inr (map_of f p)),
      os_isfile = (\<lambda>f p. map_of f p \<noteq> None),
      os_isdir = (\<lambda>f p. True),
      os_makedirs = (\<lambda>f p. Inr (Some f)),
      os_write = (\<lambda>f p content. Inr (Some ((p, content) # f))),
      db_find = (\<lambda>d m. map_of d m),
      db_assign = (\<lambda>d m uri. (m, uri) # d),
      db_delete = (\<lambda>d m. filter (\<lambda>e. fst e \<noteq> m) d),
      get_string_list = (\<lambda>key default. default),
      expand_path = (\<lambda>pat m. if pat = ''~/.lyrics'' then Some ''/home/u/.lyrics'' else None),
      expand_file = (\<lambda>pat m. if pat = ''%t'' then Some m else None)\<rparr>"

text \<open>The same environment with a detector that names UTF-8 on every input.\<close>

definition named_env :: "(string, (string \<times> string) list, (string \<times> bytes) list) env" where
  "named_env = example_env\<lparr>detect := (\<lambda>content. Some ''UTF-8'')\<rparr>"

text \<open>The same environment on a file system that refuses every write.\<close>

definition readonly_env :: "(string, (string \<times> string) list, (string \<times> bytes) list) env" where
  "readonly_env = example_env\<lparr>os_write := (\<lambda>f p content. Inr None)\<rparr>"

text \<open>An example state: the given store and files, the current track \<open>song\<close>, no
  signal emitted and no file-system call made.\<close>

definition example_world ::
  "(string \<times> string) list \<Rightarrow> (string \<times> bytes) list \<Rightarrow>
     (string, (string \<times> string) list, (string \<times> bytes) list) world" where
  "example_world d f = \<lparr>fs = f, db = d, current = ''song'', signals = 0, trace = []\<rparr>"

text \<open>A file of forty-one bytes in which no encoding is detected.\<close>

definition garbled :: bytes where
  "garbled = replicate 41 0xFF"

text \<open>
  The two conditions of the resolution, in the words of the contract of
  \<open>load_from_uri\<close> (a text when loaded, \<open>None\<close> when failed): nothing is recorded or the
  load of the recorded URI gives \<open>None\<close>, leaving the state \<open>w1\<close>; and the search by
  pattern finds no file or the load of the file found gives \<open>None\<close>, leaving \<open>w2\<close>.
\<close>

definition no_recorded_content ::
  "('m, 'db, 'fs) env \<Rightarrow> 'm \<Rightarrow> ('m, 'db, 'fs) world \<Rightarrow> ('m, 'db, 'fs) world \<Rightarrow> bool" where
  "no_recorded_content env metadata w w1 =
     ((\<exists>uri. find_lrc_from_db env metadata w = Inr uri \<and> \<not> truthy uri \<and> w1 = w) \<or>
      (\<exists>uri. find_lrc_from_db env metadata w = Inr (Some uri) \<and> uri \<noteq> [] \<and> uri \<noteq> ''none:'' \<and>
             load_from_uri env uri w = (Inr None, w1)))"

definition no_pattern_content ::
  "('m, 'db, 'fs) env \<Rightarrow> 'm \<Rightarrow> ('m, 'db, 'fs) world \<Rightarrow> ('m, 'db, 'fs) world \<Rightarrow> bool" where
  "no_pattern_content env metadata w1 w2 =
     ((\<exists>found. find_lrc_by_pattern env metadata w1 = (Inr found, w2) \<and> \<not> truthy found) \<or>
      (\<exists>puri w'. find_lrc_by_pattern env metadata w1 = (Inr (Some puri), w') \<and> puri \<noteq> [] \<and>
             load_from_uri env puri w' = (Inr None, w2)))"

text \<open>A lyric file at the place the title pattern gives for the track \<open>song\<close>.\<close>

definition song_file :: "(string \<times> bytes) list" where
  "song_file = [(''/home/u/.lyrics/song.lrc'', [0x68, 0x69])]"

section \<open>The offset rewriter: proofs\<close>

lemma newline_neq [simp]: "newline \<noteq> CHR '']''" "CHR '']'' \<noteq> newline"
  by (simp_all add: newline_def)

lemma bracket_body_append: "CHR '']'' \<notin> set b \<Longrightarrow> bracket_body (b @ CHR '']'' # r) = Some r"
  by (induction b) auto

lemma bracket_body_split:
  "bracket_body s = Some rest \<Longrightarrow> \<exists>b. s = b @ CHR '']'' # rest \<and> CHR '']'' \<notin> set b"
proof (induction s)
  case Nil
  then show ?case by simp
next
  case (Cons c cs)
  show ?case
  proof (cases "c = CHR '']''")
    case True
    with Cons.prems have "c # cs = [] @ CHR '']'' # rest" by simp
    then show ?thesis by (metis empty_iff empty_set)
  next
    case False
    with Cons.prems have "bracket_body cs = Some rest" by simp
    from Cons.IH [OF this] obtain b where "cs = b @ CHR '']'' # rest" "CHR '']'' \<notin> set b" by blast
    with False have "c # cs = (c # b) @ CHR '']'' # rest \<and> CHR '']'' \<notin> set (c # b)" by simp
    then show ?thesis by blast
  qed
qed

lemma lazy_value_append: "plain_value v \<Longrightarrow> lazy_value (v @ CHR '']'' # r) = Some (length v)"
  by (induction v) (auto simp: plain_value_def)

lemma lazy_value_split:
  "lazy_value s = Some n \<Longrightarrow> \<exists>v r. s = v @ CHR '']'' # r \<and> plain_value v \<and> length v = n"
proof (induction s arbitrary: n)
  case Nil
  then show ?case by simp
next
  case (Cons c cs)
  show ?case
  proof (cases "c = CHR '']''")
    case True
    with Cons.prems have "c # cs = [] @ CHR '']'' # cs \<and> plain_value [] \<and> length ([]::string) = n"
      by (simp add: plain_value_def)
    then show ?thesis by blast
  next
    case False
    with Cons.prems have nl: "c \<noteq> newline" by (auto split: if_splits)
    with False Cons.prems obtain m where m: "lazy_value cs = Some m" "n = Suc m" by auto
    from Cons.IH [OF m(1)] obtain v r where "cs = v @ CHR '']'' # r" "plain_value v" "length v = m" by blast
    with False nl m have "c # cs = (c # v) @ CHR '']'' # r \<and> plain_value (c # v) \<and> length (c # v) = n"
      by (simp add: plain_value_def)
    then show ?thesis by blast
  qed
qed



lemma offset_key_length [simp]: "length offset_key = 8"
  by (simp add: offset_key_def)

lemma offset_key_plain [simp]: "plain_value offset_key"
  by (simp add: offset_key_def plain_value_def newline_def)

lemma offset_key_Cons: "offset_key = CHR ''['' # tl offset_key"
  by (simp add: offset_key_def)

lemma offset_key_tl: "CHR ''['' \<notin> set (tl offset_key)" "length (tl offset_key) = 7"
  by (simp_all add: offset_key_def)

lemma offset_key_no_close [simp]: "CHR '']'' \<notin> set offset_key"
  by (simp add: offset_key_def)

lemma re_offset_tag_key:
  "re_offset_tag s =
     (if take 8 s = offset_key then map_option (\<lambda>n. (8, 8 + n)) (lazy_value (drop 8 s)) else None)"
  by (simp add: re_offset_tag_def offset_key_def)

lemma re_offset_tag_intro:
  "plain_value v \<Longrightarrow> re_offset_tag (offset_key @ v @ CHR '']'' # r) = Some (8, 8 + length v)"
  by (simp add: re_offset_tag_key lazy_value_append)

lemma take_8_split: "take 8 s = offset_key \<Longrightarrow> s = offset_key @ drop 8 s"
  by (metis append_take_drop_id)

lemma re_offset_tag_split:
  assumes "re_offset_tag s = Some sp"
  shows "\<exists>v r. s = offset_key @ v @ CHR '']'' # r \<and> plain_value v \<and> sp = (8, 8 + length v)"
proof -
  from assms have t: "take 8 s = offset_key"
    by (auto simp: re_offset_tag_key split: if_splits)
  with assms obtain n where n: "lazy_value (drop 8 s) = Some n" "sp = (8, 8 + n)"
    by (auto simp: re_offset_tag_key)
  from lazy_value_split [OF n(1)] obtain v r where
    v: "drop 8 s = v @ CHR '']'' # r" "plain_value v" "length v = n" by blast
  from take_8_split [OF t] v(1) have "s = offset_key @ v @ CHR '']'' # r" by simp
  with v n show ?thesis by blast
qed


lemma lazy_value_tag_indep:
  "CHR '']'' \<notin> set b \<Longrightarrow> lazy_value (b @ CHR '']'' # r) = lazy_value (b @ CHR '']'' # r')"
  by (induction b) auto

lemma re_offset_tag_indep:
  assumes "CHR '']'' \<notin> set b"
  shows "re_offset_tag (CHR ''['' # b @ CHR '']'' # r) = re_offset_tag (CHR ''['' # b @ CHR '']'' # r')"
proof (cases "7 \<le> length b")
  case True
  then have "take 8 (CHR ''['' # b @ CHR '']'' # r) = take 8 (CHR ''['' # b @ CHR '']'' # r')"
    by simp
  moreover from True have "drop 8 (CHR ''['' # b @ CHR '']'' # r) = drop 7 b @ CHR '']'' # r"
     "drop 8 (CHR ''['' # b @ CHR '']'' # r') = drop 7 b @ CHR '']'' # r'"
    by simp_all
  moreover from assms have "CHR '']'' \<notin> set (drop 7 b)"
    by (meson in_set_dropD)
  ultimately show ?thesis
    unfolding re_offset_tag_key using lazy_value_tag_indep [of "drop 7 b" r r'] by presburger
next
  case False
  have "\<And>q. take 8 (CHR ''['' # b @ CHR '']'' # q) \<noteq> offset_key"
  proof
    fix q
    assume a: "take 8 (CHR ''['' # b @ CHR '']'' # q) = offset_key"
    from False have "CHR '']'' \<in> set (take 8 (CHR ''['' # b @ CHR '']'' # q))"
      by (simp add: take_Cons' )
    with a show False by simp
  qed
  then show ?thesis by (simp add: re_offset_tag_key)
qed


lemma re_bracket_tag_intro:
  "CHR '']'' \<notin> set b \<Longrightarrow> re_bracket_tag (CHR ''['' # b @ CHR '']'' # r) = Some r"
  by (simp add: re_bracket_tag_def bracket_body_append)

lemma re_bracket_tag_split:
  assumes "re_bracket_tag s = Some rest"
  shows "\<exists>b. s = CHR ''['' # b @ CHR '']'' # rest \<and> CHR '']'' \<notin> set b"
proof -
  from assms obtain cs where s: "s = CHR ''['' # cs" "bracket_body cs = Some rest"
    by (cases s) (auto simp: re_bracket_tag_def split: if_splits)
  from bracket_body_split [OF s(2)] s(1) show ?thesis by auto
qed

lemma re_match_offset: "re_offset_tag s = Some sp \<Longrightarrow> re_match s = Some sp"
  by (simp add: re_match.simps [of s])

lemma re_match_tag:
  "re_offset_tag s = None \<Longrightarrow> re_bracket_tag s = Some rest \<Longrightarrow>
     re_match s = map_option (shift (length s - length rest)) (re_match rest)"
  by (simp add: re_match.simps [of s])

lemma re_match_fail:
  "re_offset_tag s = None \<Longrightarrow> re_bracket_tag s = None \<Longrightarrow> re_match s = None"
  by (simp add: re_match.simps [of s])

lemma re_match_shape:
  "re_match s = Some sp \<Longrightarrow>
     \<exists>pre v r. s = pre @ offset_key @ v @ CHR '']'' # r \<and> plain_value v \<and>
        sp = (length pre + 8, length pre + 8 + length v) \<and>
        (\<forall>w. plain_value w \<longrightarrow>
           re_match (pre @ offset_key @ w @ CHR '']'' # r) = Some (length pre + 8, length pre + 8 + length w))"
proof (induction s arbitrary: sp rule: re_match.induct)
  case (1 s)
  show ?case
  proof (cases "re_offset_tag s")
    case (Some sp0)
    with "1.prems" have sp: "sp = sp0" by (simp add: re_match.simps [of s])
    from re_offset_tag_split [OF Some] obtain v r where
      v: "s = offset_key @ v @ CHR '']'' # r" "plain_value v" "sp0 = (8, 8 + length v)" by blast
    have "\<forall>w. plain_value w \<longrightarrow>
        re_match ([] @ offset_key @ w @ CHR '']'' # r) = Some (length ([]::string) + 8, length ([]::string) + 8 + length w)"
    proof (intro allI impI)
      fix w assume "plain_value w"
      then have "re_offset_tag (offset_key @ w @ CHR '']'' # r) = Some (8, 8 + length w)"
        by (rule re_offset_tag_intro)
      then have "re_match (offset_key @ w @ CHR '']'' # r) = Some (8, 8 + length w)"
        by (rule re_match_offset)
      then show "re_match ([] @ offset_key @ w @ CHR '']'' # r) = Some (length ([]::string) + 8, length ([]::string) + 8 + length w)"
        by simp
    qed
    moreover have "s = [] @ offset_key @ v @ CHR '']'' # r" using v(1) by simp
    moreover have "sp = (length ([]::string) + 8, length ([]::string) + 8 + length v)" using sp v(3) by simp
    ultimately show ?thesis using v(2) by blast
  next
    case None
    with "1.prems" obtain rest sp' where rest: "re_bracket_tag s = Some rest"
      and m: "re_match rest = Some sp'" and sp: "sp = shift (length s - length rest) sp'"
      by (auto simp: re_match.simps [of s] split: option.splits)
    from re_bracket_tag_split [OF rest] obtain b where
      b: "s = CHR ''['' # b @ CHR '']'' # rest" "CHR '']'' \<notin> set b" by blast
    from "1.IH" [OF None rest m] obtain pre v r where
      ih: "rest = pre @ offset_key @ v @ CHR '']'' # r" "plain_value v"
        "sp' = (length pre + 8, length pre + 8 + length v)"
        "\<forall>w. plain_value w \<longrightarrow>
           re_match (pre @ offset_key @ w @ CHR '']'' # r) = Some (length pre + 8, length pre + 8 + length w)"
      by blast
    define pre2 where "pre2 = CHR ''['' # b @ CHR '']'' # pre"
    have k: "length s - length rest = length b + 2" using b(1) by simp
    have s2: "s = pre2 @ offset_key @ v @ CHR '']'' # r" using b(1) ih(1) by (simp add: pre2_def)
    have sp2: "sp = (length pre2 + 8, length pre2 + 8 + length v)"
      using sp ih(3) k by (simp add: shift_def pre2_def)
    have "\<forall>w. plain_value w \<longrightarrow>
        re_match (pre2 @ offset_key @ w @ CHR '']'' # r) = Some (length pre2 + 8, length pre2 + 8 + length w)"
    proof (intro allI impI)
      fix w assume w: "plain_value w"
      define rest2 where "rest2 = pre @ offset_key @ w @ CHR '']'' # r"
      define s' where "s' = CHR ''['' # b @ CHR '']'' # rest2"
      have o: "re_offset_tag s' = None"
        using re_offset_tag_indep [OF b(2), of rest2 rest] None b(1) by (simp add: s'_def)
      have t: "re_bracket_tag s' = Some rest2"
        unfolding s'_def by (rule re_bracket_tag_intro [OF b(2)])
      have r2: "re_match rest2 = Some (length pre + 8, length pre + 8 + length w)"
        using ih(4) w by (simp add: rest2_def)
      have "length s' - length rest2 = length b + 2" by (simp add: s'_def)
      with re_match_tag [OF o t] r2 have "re_match s' = Some (length pre2 + 8, length pre2 + 8 + length w)"
        by (simp add: shift_def pre2_def)
      moreover have "pre2 @ offset_key @ w @ CHR '']'' # r = s'"
        by (simp add: s'_def rest2_def pre2_def)
      ultimately show "re_match (pre2 @ offset_key @ w @ CHR '']'' # r) = Some (length pre2 + 8, length pre2 + 8 + length w)"
        by simp
    qed
    with s2 sp2 ih(2) show ?thesis by blast
  qed
qed


lemma plain_value_append [simp]: "plain_value (a @ b) = (plain_value a \<and> plain_value b)"
  by (auto simp: plain_value_def)

lemma lazy_value_replace_None:
  "plain_value v \<Longrightarrow> plain_value w \<Longrightarrow>
   lazy_value (x @ offset_key @ v @ CHR '']'' # y) = None \<Longrightarrow>
   lazy_value (x @ offset_key @ w @ CHR '']'' # y) = None"
proof (induction x)
  case Nil
  have "lazy_value ((offset_key @ v) @ CHR '']'' # y) = Some (length (offset_key @ v))"
    by (rule lazy_value_append) (simp add: Nil.prems)
  with Nil.prems(3) show ?case by simp
next
  case (Cons c x)
  then show ?case by (auto split: if_splits)
qed

lemma take_8_key: "take 8 (x @ offset_key @ r) = take 8 (x @ offset_key @ r')"
  by simp

lemma key_not_early:
  assumes "x \<noteq> []" and "take 8 (x @ offset_key @ r) = offset_key"
  shows "8 \<le> length x"
proof (rule ccontr)
  assume "\<not> 8 \<le> length x"
  then have lt: "length x < 8" by simp
  have "offset_key ! 0 = CHR ''[''" by (simp add: offset_key_def)
  then have "(x @ offset_key @ r) ! length x = CHR ''[''"
    by (simp add: nth_append)
  moreover have "take 8 (x @ offset_key @ r) ! length x = (x @ offset_key @ r) ! length x"
    using lt by (rule nth_take)
  ultimately have k: "offset_key ! length x = CHR ''[''"
    using assms(2) by simp
  from assms(1) lt obtain i where i: "length x = Suc i" "i < 7"
    by (cases "length x") auto
  from k i(1) have "tl offset_key ! i = CHR ''[''"
    using offset_key_Cons by (metis nth_Cons_Suc)
  moreover from i(2) have "tl offset_key ! i \<in> set (tl offset_key)"
    by (intro nth_mem) (simp add: offset_key_tl)
  ultimately show False using offset_key_tl(1) by simp
qed

lemma re_offset_tag_replace_None:
  assumes "plain_value v" and "plain_value w" and "x \<noteq> []"
    and "re_offset_tag (x @ offset_key @ v @ CHR '']'' # y) = None"
  shows "re_offset_tag (x @ offset_key @ w @ CHR '']'' # y) = None"
proof (cases "take 8 (x @ offset_key @ w @ CHR '']'' # y) = offset_key")
  case False
  then show ?thesis unfolding re_offset_tag_key by presburger
next
  case True
  then have t: "take 8 (x @ offset_key @ v @ CHR '']'' # y) = offset_key"
    using take_8_key [of x "w @ CHR '']'' # y" "v @ CHR '']'' # y"] by simp
  from key_not_early [OF assms(3) True] have len: "8 \<le> length x" .
  then have d: "\<And>q. drop 8 (x @ q) = drop 8 x @ q" by simp
  from assms(4) t have "lazy_value (drop 8 (x @ offset_key @ v @ CHR '']'' # y)) = None"
    unfolding re_offset_tag_key by (metis option.map_disc_iff)
  then have "lazy_value (drop 8 x @ offset_key @ v @ CHR '']'' # y) = None"
    using d by simp
  from lazy_value_replace_None [OF assms(1,2) this]
  have "lazy_value (drop 8 (x @ offset_key @ w @ CHR '']'' # y)) = None"
    using d by simp
  then show ?thesis unfolding re_offset_tag_key by simp
qed

lemma re_match_replace_None:
  "plain_value v \<Longrightarrow> plain_value w \<Longrightarrow> x \<noteq> [] \<Longrightarrow>
   re_match (x @ offset_key @ v @ CHR '']'' # y) = None \<Longrightarrow>
   re_match (x @ offset_key @ w @ CHR '']'' # y) = None"
proof (induction "length x" arbitrary: x rule: less_induct)
  case less
  define s where "s = x @ offset_key @ v @ CHR '']'' # y"
  define s' where "s' = x @ offset_key @ w @ CHR '']'' # y"
  from less.prems(4) have none: "re_match s = None" by (simp add: s_def)
  then have o: "re_offset_tag s = None"
    by (auto simp: re_match.simps [of s] split: option.splits)
  then have o': "re_offset_tag s' = None"
    unfolding s_def s'_def by (rule re_offset_tag_replace_None [OF less.prems(1,2,3)])
  obtain c x1 where x: "x = c # x1" using less.prems(3) by (cases x) auto
  have goal: "re_match s' = None"
  proof (cases "c = CHR ''[''")
    case False
    then have "re_bracket_tag s' = None" by (simp add: re_bracket_tag_def x s'_def)
    with o' show ?thesis by (rule re_match_fail)
  next
    case True
    show ?thesis
    proof (cases "CHR '']'' \<in> set x1")
      case True
      then obtain b x2 where sp: "x1 = b @ CHR '']'' # x2" "CHR '']'' \<notin> set b"
        by (metis split_list_first)
      define rest where "rest = x2 @ offset_key @ v @ CHR '']'' # y"
      define rest' where "rest' = x2 @ offset_key @ w @ CHR '']'' # y"
      have "s = CHR ''['' # b @ CHR '']'' # rest" using x sp(1) \<open>c = CHR ''[''\<close>
        by (simp add: s_def rest_def)
      then have t: "re_bracket_tag s = Some rest"
        using re_bracket_tag_intro [OF sp(2)] by simp
      have "s' = CHR ''['' # b @ CHR '']'' # rest'" using x sp(1) \<open>c = CHR ''[''\<close>
        by (simp add: s'_def rest'_def)
      then have t': "re_bracket_tag s' = Some rest'"
        using re_bracket_tag_intro [OF sp(2)] by simp
      from none re_match_tag [OF o t] have rn: "re_match rest = None" by simp
      have "x2 \<noteq> []"
      proof
        assume "x2 = []"
        then have "re_match rest = Some (8, 8 + length v)"
          using re_match_offset [OF re_offset_tag_intro [OF less.prems(1)]] by (simp add: rest_def)
        with rn show False by simp
      qed
      moreover have "length x2 < length x" using x sp(1) by simp
      ultimately have "re_match rest' = None"
        using less.hyps [of x2] less.prems(1,2) rn by (simp add: rest_def rest'_def)
      with re_match_tag [OF o' t'] show ?thesis by simp
    next
      case False
      have pv: "CHR '']'' \<notin> set (x1 @ offset_key @ v)" using False less.prems(1)
        by (simp add: plain_value_def)
      have pw: "CHR '']'' \<notin> set (x1 @ offset_key @ w)" using False less.prems(2)
        by (simp add: plain_value_def)
      have "s = CHR ''['' # (x1 @ offset_key @ v) @ CHR '']'' # y" using x \<open>c = CHR ''[''\<close>
        by (simp add: s_def)
      then have t: "re_bracket_tag s = Some y"
        using re_bracket_tag_intro [OF pv] by simp
      have "s' = CHR ''['' # (x1 @ offset_key @ w) @ CHR '']'' # y" using x \<open>c = CHR ''[''\<close>
        by (simp add: s'_def)
      then have t': "re_bracket_tag s' = Some y"
        using re_bracket_tag_intro [OF pw] by simp
      from none re_match_tag [OF o t] have "re_match y = None" by simp
      with re_match_tag [OF o' t'] show ?thesis by simp
    qed
  qed
  then show ?case by (simp add: s'_def)
qed


lemma re_match_Nil: "re_match [] = None"
  by (simp add: re_match.simps [of "[]"] re_offset_tag_def re_bracket_tag_def)

lemma re_search_from_here:
  "bol \<Longrightarrow> re_match s = Some sp \<Longrightarrow> re_search_from bol s = Some sp"
  by (cases s) simp_all

lemma re_search_from_next:
  "(bol \<longrightarrow> re_match (c # cs) = None) \<Longrightarrow>
   re_search_from bol (c # cs) = map_option (shift 1) (re_search_from (c = newline) cs)"
  by auto

lemma re_search_from_shape:
  "re_search_from bol s = Some sp \<Longrightarrow>
     \<exists>pre v r. s = pre @ offset_key @ v @ CHR '']'' # r \<and> plain_value v \<and>
        sp = (length pre + 8, length pre + 8 + length v) \<and>
        (\<forall>w. plain_value w \<longrightarrow>
           re_search_from bol (pre @ offset_key @ w @ CHR '']'' # r) =
             Some (length pre + 8, length pre + 8 + length w))"
proof (induction s arbitrary: bol sp)
  case Nil
  then show ?case by (simp add: re_match_Nil split: if_splits)
next
  case (Cons c cs)
  show ?case
  proof (cases "bol \<and> re_match (c # cs) \<noteq> None")
    case True
    with Cons.prems have m: "re_match (c # cs) = Some sp" by auto
    from re_match_shape [OF m] obtain pre v r where
      sh: "c # cs = pre @ offset_key @ v @ CHR '']'' # r" "plain_value v"
        "sp = (length pre + 8, length pre + 8 + length v)"
        "\<forall>w. plain_value w \<longrightarrow>
           re_match (pre @ offset_key @ w @ CHR '']'' # r) = Some (length pre + 8, length pre + 8 + length w)"
      by blast
    have "\<forall>w. plain_value w \<longrightarrow>
           re_search_from bol (pre @ offset_key @ w @ CHR '']'' # r) =
             Some (length pre + 8, length pre + 8 + length w)"
      using sh(4) True re_search_from_here by blast
    with sh(1,2,3) show ?thesis by blast
  next
    case False
    then have f: "bol \<longrightarrow> re_match (c # cs) = None" by blast
    from Cons.prems have "map_option (shift 1) (re_search_from (c = newline) cs) = Some sp"
      unfolding re_search_from_next [OF f] .
    then obtain sp' where
      sp': "re_search_from (c = newline) cs = Some sp'" "sp = shift 1 sp'" by blast
    from Cons.IH [OF sp'(1)] obtain pre v r where
      ih: "cs = pre @ offset_key @ v @ CHR '']'' # r" "plain_value v"
        "sp' = (length pre + 8, length pre + 8 + length v)"
        "\<forall>w. plain_value w \<longrightarrow>
           re_search_from (c = newline) (pre @ offset_key @ w @ CHR '']'' # r) =
             Some (length pre + 8, length pre + 8 + length w)"
      by blast
    define pre2 where "pre2 = c # pre"
    have s2: "c # cs = pre2 @ offset_key @ v @ CHR '']'' # r" using ih(1) by (simp add: pre2_def)
    have sp2: "sp = (length pre2 + 8, length pre2 + 8 + length v)"
      using sp'(2) ih(3) by (simp add: shift_def pre2_def)
    have "\<forall>w. plain_value w \<longrightarrow>
           re_search_from bol (pre2 @ offset_key @ w @ CHR '']'' # r) =
             Some (length pre2 + 8, length pre2 + 8 + length w)"
    proof (intro allI impI)
      fix w assume w: "plain_value w"
      define cs' where "cs' = pre @ offset_key @ w @ CHR '']'' # r"
      have "bol \<longrightarrow> re_match (c # cs') = None"
      proof
        assume bol
        with f have n: "re_match (pre2 @ offset_key @ v @ CHR '']'' # r) = None" using s2 by simp
        have ne: "pre2 \<noteq> []" by (simp add: pre2_def)
        have "re_match (pre2 @ offset_key @ w @ CHR '']'' # r) = None"
          by (rule re_match_replace_None [OF ih(2) w ne n])
        then show "re_match (c # cs') = None" by (simp add: cs'_def pre2_def)
      qed
      from re_search_from_next [OF this] ih(4) w
      have "re_search_from bol (c # cs') = Some (length pre2 + 8, length pre2 + 8 + length w)"
        by (simp add: cs'_def shift_def pre2_def)
      then show "re_search_from bol (pre2 @ offset_key @ w @ CHR '']'' # r) =
             Some (length pre2 + 8, length pre2 + 8 + length w)"
        by (simp add: cs'_def pre2_def)
    qed
    with s2 sp2 ih(2) show ?thesis by blast
  qed
qed

lemma digit_char_plain: "d < 10 \<Longrightarrow> digit_char d \<noteq> CHR '']'' \<and> digit_char d \<noteq> newline"
proof -
  assume d: "d < 10"
  have e: "of_char (digit_char d) = (48 + d :: nat)"
    using d by (simp add: digit_char_def)
  have "digit_char d \<noteq> CHR '']''"
  proof
    assume "digit_char d = CHR '']''"
    then have "of_char (digit_char d) = (of_char (CHR '']'') :: nat)" by simp
    with e have "48 + d = (93::nat)" by simp
    with d show False by simp
  qed
  moreover have "digit_char d \<noteq> newline"
  proof
    assume "digit_char d = newline"
    then have "of_char (digit_char d) = (of_char (CHR 0x0A) :: nat)" by (simp add: newline_def)
    with e have "48 + d = (10::nat)" by simp
    then show False by simp
  qed
  ultimately show ?thesis by simp
qed

lemma str_nat_plain: "plain_value (str_nat n)"
proof (induction n rule: str_nat.induct)
  case (1 n)
  show ?case
  proof (cases "n < 10")
    case True
    then show ?thesis
      using digit_char_plain [of n] by (auto simp: str_nat.simps [of n] plain_value_def)
  next
    case False
    have "n mod 10 < 10" by simp
    from digit_char_plain [OF this] "1.IH" [OF False] False show ?thesis
      by (auto simp: str_nat.simps [of n] plain_value_def)
  qed
qed

lemma str_int_plain: "plain_value (str_int i)"
  using str_nat_plain [of "nat (- i)"] str_nat_plain [of "nat i"]
  by (simp add: str_int_def plain_value_def newline_def)

text \<open>
  Claim C2. Rewriting the offset twice is rewriting it once with the second offset:
  for every content and all integer offsets \<open>a\<close> and \<open>b\<close>,
  \<open>update_lrc_offset (update_lrc_offset content a) b = update_lrc_offset content b\<close>; with
  \<open>a = b\<close> the rewrite is idempotent. The first rewrite leaves a line-anchored offset tag
  at the place the search finds first, and the second rewrite replaces its value.
\<close>

theorem update_lrc_offset_overwrite:
  "update_lrc_offset (update_lrc_offset content a) b = update_lrc_offset content b"
proof (cases "re_search content")
  case None
  define c1 where "c1 = offset_key @ str_int a @ CHR '']'' # newline # content"
  have u: "update_lrc_offset content a = c1"
    using None by (simp add: update_lrc_offset_def c1_def offset_key_def)
  have "re_offset_tag c1 = Some (8, 8 + length (str_int a))"
    unfolding c1_def by (rule re_offset_tag_intro [OF str_int_plain])
  then have "re_match c1 = Some (8, 8 + length (str_int a))" by (rule re_match_offset)
  then have "re_search c1 = Some (8, 8 + length (str_int a))"
    unfolding re_search_def by (rule re_search_from_here [OF TrueI])
  then have "update_lrc_offset c1 b = take 8 c1 @ str_int b @ drop (8 + length (str_int a)) c1"
    by (simp add: update_lrc_offset_def)
  also have "\<dots> = offset_key @ str_int b @ CHR '']'' # newline # content"
    by (simp add: c1_def)
  also have "\<dots> = update_lrc_offset content b"
    using None by (simp add: update_lrc_offset_def offset_key_def)
  finally show ?thesis using u by simp
next
  case (Some sp)
  then have "re_search_from True content = Some sp" by (simp add: re_search_def)
  from re_search_from_shape [OF this] obtain pre v r where
    sh: "content = pre @ offset_key @ v @ CHR '']'' # r" "plain_value v"
      "sp = (length pre + 8, length pre + 8 + length v)"
      "\<forall>w. plain_value w \<longrightarrow>
         re_search_from True (pre @ offset_key @ w @ CHR '']'' # r) =
           Some (length pre + 8, length pre + 8 + length w)"
    by blast
  have upd: "\<And>n. update_lrc_offset content n = pre @ offset_key @ str_int n @ CHR '']'' # r"
    using Some sh(1,3) by (simp add: update_lrc_offset_def)
  define c1 where "c1 = pre @ offset_key @ str_int a @ CHR '']'' # r"
  have "re_search c1 = Some (length pre + 8, length pre + 8 + length (str_int a))"
    using sh(4) str_int_plain by (simp add: re_search_def c1_def)
  then have "update_lrc_offset c1 b =
      take (length pre + 8) c1 @ str_int b @ drop (length pre + 8 + length (str_int a)) c1"
    by (simp add: update_lrc_offset_def)
  also have "\<dots> = pre @ offset_key @ str_int b @ CHR '']'' # r"
    by (simp add: c1_def)
  finally show ?thesis using upd by (simp add: c1_def)
qed













section \<open>The service: proofs\<close>

lemma decode_by_charset_empty:
  assumes "codec env (empty_input_encoding env) = Some d" and "d [] = []"
  shows "decode_by_charset env [] = Inr []"
  using assms
  by (simp add: decode_by_charset_def empty_input_encoding_def Let_def
      DETECT_CHARSET_GUESS_MIN_LEN_def)

lemma decode_by_charset_TypeError:
  assumes "\<not> truthy (detect env content)" and "40 < length content"
    and "detect env (take (min (max 40 (length content div 2)) 100) content) = None"
  shows "decode_by_charset env content = Inl TypeError"
  using assms
  by (simp add: decode_by_charset_def Let_def DETECT_CHARSET_GUESS_MIN_LEN_def
      DETECT_CHARSET_GUESS_MAX_LEN_def)

text \<open>\<open>TypeError\<close> arises in no other way.\<close>

lemma decode_by_charset_TypeError_only:
  assumes "decode_by_charset env content = Inl TypeError"
  shows "\<not> truthy (detect env content) \<and> 40 < length content \<and>
         detect env (take (min (max 40 (length content div 2)) 100) content) = None"
  using assms
  by (auto simp: decode_by_charset_def Let_def DETECT_CHARSET_GUESS_MIN_LEN_def
      DETECT_CHARSET_GUESS_MAX_LEN_def split: if_splits option.splits)

text \<open>
  Claim C3 (the code raises). \<open>decode_by_charset\<close> is claimed never to raise, also when
  the detector gives no encoding for the whole input and for the slice of the second
  attempt. On an input of forty-one bytes with such a detector the log message of the
  second attempt is built from \<open>None\<close> and the function raises \<open>TypeError\<close>, before the
  fallback to UTF-8 that follows in the source.
\<close>

theorem decode_by_charset_raises:
  "decode_by_charset example_env garbled = Inl TypeError"
  by (rule decode_by_charset_TypeError) (simp_all add: example_env_def garbled_def truthy_def)

lemma URI_LOAD_HANDLERS_none:
  "URI_LOAD_HANDLERS ''none'' = Some (\<lambda>env uri w. (Inr (Some []), w))"
  by (simp add: URI_LOAD_HANDLERS_def)

lemma URI_LOAD_HANDLERS_file: "URI_LOAD_HANDLERS ''file'' = Some load_from_file"
  by (simp add: URI_LOAD_HANDLERS_def)

lemma URI_SAVE_HANDLERS_none:
  "URI_SAVE_HANDLERS ''none'' = Some (\<lambda>env urlparts content create w. (Inr True, w))"
  by (simp add: URI_SAVE_HANDLERS_def)

lemma URI_SAVE_HANDLERS_file: "URI_SAVE_HANDLERS ''file'' = Some save_to_file"
  by (simp add: URI_SAVE_HANDLERS_def)

text \<open>
  Claim C7. For every URI whose scheme is \<open>none\<close>, \<open>load_from_uri\<close> returns the empty
  text and makes no file-system call: the state, with its file system and its trace
  of calls, is returned as it was, whatever the file system holds. The detector may
  name an encoding for the empty input or none; the codec of that name (of UTF-8 when
  it names none) is taken to exist and to decode the empty input to the empty text,
  as the codecs of Python do. The witness runs a detector that names none and one
  that names UTF-8.
\<close>

theorem load_from_uri_none:
  assumes "urlparse env uri = Inr parts" and "scheme parts = ''none''"
    and "codec env (empty_input_encoding env) = Some d" and "d [] = []"
  shows "load_from_uri env uri w = (Inr (Some []), w)"
proof -
  have "decode_by_charset env [] = Inr []"
    using assms(3,4) by (rule decode_by_charset_empty)
  then show ?thesis
    using assms(1,2) by (simp add: load_from_uri_def URI_LOAD_HANDLERS_none)
qed

theorem load_from_uri_none_witness:
  "urlparse example_env ''none:'' = Inr \<lparr>scheme = ''none'', path = []\<rparr> \<and>
   scheme \<lparr>scheme = ''none'', path = []\<rparr> = ''none'' \<and>
   empty_input_encoding example_env = ''utf-8'' \<and>
   codec example_env ''utf-8'' = Some example_decode \<and>
   example_decode [] = [] \<and>
   load_from_uri example_env ''none:'' (example_world [] [(''/a.lrc'', [0x61])]) =
     (Inr (Some []), example_world [] [(''/a.lrc'', [0x61])]) \<and>
   urlparse named_env ''none:'' = Inr \<lparr>scheme = ''none'', path = []\<rparr> \<and>
   detect named_env [] = Some ''UTF-8'' \<and>
   empty_input_encoding named_env = ''utf-8'' \<and>
   codec named_env ''utf-8'' = Some example_decode \<and>
   load_from_uri named_env ''none:'' (example_world [] [(''/a.lrc'', [0x61])]) =
     (Inr (Some []), example_world [] [(''/a.lrc'', [0x61])])"
proof -
  have u: "urlparse example_env ''none:'' = Inr \<lparr>scheme = ''none'', path = []\<rparr>"
    by code_simp
  have s: "scheme \<lparr>scheme = ''none'', path = []\<rparr> = ''none''" by simp
  have e: "empty_input_encoding example_env = ''utf-8''" by code_simp
  have c: "codec example_env ''utf-8'' = Some example_decode" by (simp add: example_env_def)
  have z: "example_decode [] = []" by (simp add: example_decode_def)
  have u': "urlparse named_env ''none:'' = Inr \<lparr>scheme = ''none'', path = []\<rparr>"
    by code_simp
  have n: "detect named_env [] = Some ''UTF-8''" by (simp add: named_env_def)
  have e': "empty_input_encoding named_env = ''utf-8''" by code_simp
  have c': "codec named_env ''utf-8'' = Some example_decode"
    by (simp add: named_env_def example_env_def)
  from c e have ce: "codec example_env (empty_input_encoding example_env) = Some example_decode"
    by simp
  from c' e' have ce': "codec named_env (empty_input_encoding named_env) = Some example_decode"
    by simp
  from load_from_uri_none [OF u s ce z] load_from_uri_none [OF u' s ce' z] u s e c z u' n e' c'
  show ?thesis by simp
qed

text \<open>
  Claim C8. Whenever \<open>load_from_uri\<close> returns a text, the text holds no NUL character,
  whatever the URI, the bytes of the file and the codec.
\<close>

theorem load_from_uri_nul_free:
  assumes "load_from_uri env uri w = (Inr (Some lrc), w')"
  shows "nul \<notin> set lrc"
proof -
  from assms obtain decoded where "lrc = filter (\<lambda>c. c \<noteq> nul) decoded"
    by (auto simp: load_from_uri_def split: option.splits prod.splits sum.splits)
  then show ?thesis by simp
qed

theorem load_from_uri_nul_free_witness:
  "load_from_uri example_env ''file:///nul.lrc'' (example_world [] [(''/nul.lrc'', [0x61, 0, 0x62])]) =
     (Inr (Some ''ab''), (example_world [] [(''/nul.lrc'', [0x61, 0, 0x62])])\<lparr>trace := [OpenRead ''/nul.lrc'']\<rparr>) \<and>
   nul \<notin> set ''ab''"
proof -
  have l: "load_from_uri example_env ''file:///nul.lrc'' (example_world [] [(''/nul.lrc'', [0x61, 0, 0x62])]) =
     (Inr (Some ''ab''), (example_world [] [(''/nul.lrc'', [0x61, 0, 0x62])])\<lparr>trace := [OpenRead ''/nul.lrc'']\<rparr>)"
    by code_simp
  from load_from_uri_nul_free [OF l] l show ?thesis by simp
qed

text \<open>What \<open>load_from_uri\<close> raises: an exception of \<open>open\<close> other than \<open>IOError\<close>, and
  \<open>KeyError\<close> for a scheme without a handler.\<close>

lemma load_from_uri_read_raises:
  assumes "urlparse env uri = Inr parts" and "scheme parts = ''file''"
    and "os_read env (fs w) (url2pathname env (path parts)) = Inl err"
  shows "load_from_uri env uri w =
           (Inl err, w\<lparr>trace := trace w @ [OpenRead (url2pathname env (path parts))]\<rparr>)"
  using assms
  by (simp add: load_from_uri_def URI_LOAD_HANDLERS_file load_from_file_def sys_open_read_def)

lemma load_from_uri_unknown_scheme:
  assumes "urlparse env uri = Inr parts" and "scheme parts \<noteq> ''file''" and "scheme parts \<noteq> ''none''"
  shows "load_from_uri env uri w = (Inl (KeyError (scheme parts)), w)"
  using assms by (simp add: load_from_uri_def URI_LOAD_HANDLERS_def)

lemma is_valid_uri_none: "startswith uri ''none:'' \<Longrightarrow> is_valid_uri uri"
  by (simp add: is_valid_uri_def SUPPORTED_SCHEMES_def)

text \<open>
  Claim C10. \<open>SetOffset\<close> on a URI with the scheme \<open>none\<close> raises nothing and returns
  the state as it was (no file-system call, no write), for every offset. The URI
  starts with \<open>none:\<close>, which \<open>is_valid_uri\<close> tests, and \<open>urlparse\<close> gives it the scheme
  \<open>none\<close>, by which the handlers are chosen. The detector and the codec are as for
  the load of such a URI: any detector, and a codec for the empty input that decodes
  it to the empty text.
\<close>

theorem SetOffset_none:
  assumes "startswith uri ''none:''"
    and "urlparse env uri = Inr parts" and "scheme parts = ''none''"
    and "codec env (empty_input_encoding env) = Some d" and "d [] = []"
  shows "SetOffset env uri offset_ms w = (Inr (), w)"
proof -
  have v: "is_valid_uri uri" using assms(1) by (rule is_valid_uri_none)
  have "decode_by_charset env [] = Inr []"
    using assms(4,5) by (rule decode_by_charset_empty)
  then have l: "load_from_uri env uri w = (Inr (Some []), w)"
    using assms(2,3) by (simp add: load_from_uri_def URI_LOAD_HANDLERS_none)
  have s: "save_to_uri env uri c True w = (Inr True, w)" for c
    using assms(2,3) by (simp add: save_to_uri_def URI_SAVE_HANDLERS_none)
  show ?thesis by (simp add: SetOffset_def v l s Let_def)
qed

theorem SetOffset_none_witness:
  "startswith ''none:'' ''none:'' \<and>
   urlparse example_env ''none:'' = Inr \<lparr>scheme = ''none'', path = []\<rparr> \<and>
   empty_input_encoding example_env = ''utf-8'' \<and>
   codec example_env ''utf-8'' = Some example_decode \<and>
   example_decode [] = [] \<and>
   SetOffset example_env ''none:'' 100 (example_world [] [(''/a.lrc'', [0x61])]) =
     (Inr (), example_world [] [(''/a.lrc'', [0x61])]) \<and>
   detect named_env [] = Some ''UTF-8'' \<and>
   empty_input_encoding named_env = ''utf-8'' \<and>
   SetOffset named_env ''none:'' (- 250) (example_world [] [(''/a.lrc'', [0x61])]) =
     (Inr (), example_world [] [(''/a.lrc'', [0x61])])"
proof -
  have h0: "startswith ''none:'' ''none:''" by (simp add: startswith_def)
  have u: "urlparse example_env ''none:'' = Inr \<lparr>scheme = ''none'', path = []\<rparr>"
    by code_simp
  have s: "scheme \<lparr>scheme = ''none'', path = []\<rparr> = ''none''" by simp
  have e: "empty_input_encoding example_env = ''utf-8''" by code_simp
  have c: "codec example_env ''utf-8'' = Some example_decode" by (simp add: example_env_def)
  have z: "example_decode [] = []" by (simp add: example_decode_def)
  have u': "urlparse named_env ''none:'' = Inr \<lparr>scheme = ''none'', path = []\<rparr>"
    by code_simp
  have n: "detect named_env [] = Some ''UTF-8''" by (simp add: named_env_def)
  have e': "empty_input_encoding named_env = ''utf-8''" by code_simp
  have c': "codec named_env ''utf-8'' = Some example_decode"
    by (simp add: named_env_def example_env_def)
  from c e have ce: "codec example_env (empty_input_encoding example_env) = Some example_decode"
    by simp
  from c' e' have ce': "codec named_env (empty_input_encoding named_env) = Some example_decode"
    by simp
  from SetOffset_none [OF h0 u s ce z] SetOffset_none [OF h0 u' s ce' z] h0 u e c z n e'
  show ?thesis by simp
qed

text \<open>The outcomes of \<open>SetOffset\<close>, by the outcomes of the load and of the save.\<close>

lemma SetOffset_invalid:
  "\<not> is_valid_uri uri \<Longrightarrow> SetOffset env uri offset_ms w = (Inl (InvalidUriException uri), w)"
  by (simp add: SetOffset_def)

lemma SetOffset_cannot_load:
  "is_valid_uri uri \<Longrightarrow> load_from_uri env uri w = (Inr None, w1) \<Longrightarrow>
     SetOffset env uri offset_ms w = (Inl (CannotLoadLrcException uri), w1)"
  by (simp add: SetOffset_def)

lemma SetOffset_saved:
  "is_valid_uri uri \<Longrightarrow> load_from_uri env uri w = (Inr (Some content), w1) \<Longrightarrow>
   save_to_uri env uri (encode_utf8 env (update_lrc_offset content offset_ms)) True w1 = (Inr saved, w2) \<Longrightarrow>
     SetOffset env uri offset_ms w =
       (if saved then Inr () else Inl (CannotSaveLrcException uri), w2)"
  by (simp add: SetOffset_def Let_def)

lemma SetOffset_load_raises:
  "is_valid_uri uri \<Longrightarrow> load_from_uri env uri w = (Inl err, w1) \<Longrightarrow>
     SetOffset env uri offset_ms w = (Inl err, w1)"
  by (simp add: SetOffset_def)

text \<open>
  Claim C5 (the code raises). \<open>SetOffset\<close> is claimed to raise \<open>InvalidUri\<close>,
  \<open>CannotLoad\<close> or \<open>CannotSave\<close> and else to return. On a valid \<open>file:\<close> URI whose file
  holds forty-one bytes in which no encoding is detected, the load raises \<open>TypeError\<close>
  inside \<open>decode_by_charset\<close> and \<open>SetOffset\<close> lets it through.
\<close>

theorem SetOffset_raises:
  "SetOffset example_env ''file:///x.lrc'' 100 (example_world [] [(''/x.lrc'', garbled)]) =
     (Inl TypeError, (example_world [] [(''/x.lrc'', garbled)])\<lparr>trace := [OpenRead ''/x.lrc'']\<rparr>)"
  by code_simp

text \<open>
  Claim C6 (the code departs from its docstring). \<open>path2uri\<close> is claimed, as its
  docstring says, to convert a path if and only if it is absolute and to return every
  path that does not start with a slash unchanged. The code expands a leading tilde
  before it tests for an absolute path: with the home directory \<open>/home/u\<close> the
  relative path \<open>~/a\<close> is converted to \<open>file:///home/u/a\<close>.
\<close>

theorem path2uri_tilde_counterexample:
  "\<not> os_path_isabs ''~/a'' \<and> path2uri example_env ''~/a'' = ''file:///home/u/a'' \<and>
   path2uri example_env ''~/a'' \<noteq> ''~/a''"
  by code_simp

text \<open>What \<open>path2uri\<close> computes: the rule of the docstring holds for the paths that do
  not start with a tilde; the others are expanded first.\<close>

lemma path2uri_after_expanduser:
  "(\<not> startswith p ''~'' \<longrightarrow>
      path2uri env p = (if os_path_isabs p then ''file://'' @ pathname2url env p else p)) \<and>
   (startswith p ''~'' \<longrightarrow>
      path2uri env p =
        (if os_path_isabs (expanduser env p) then ''file://'' @ pathname2url env (expanduser env p)
         else expanduser env p))"
  by (simp add: path2uri_def expanduser_def Let_def)

lemma path2uri_after_expanduser_examples:
  "\<not> startswith ''invalid/path'' ''~'' \<and> \<not> os_path_isabs ''invalid/path'' \<and>
   path2uri example_env ''invalid/path'' = ''invalid/path'' \<and>
   \<not> startswith ''/path/to/file'' ''~'' \<and> os_path_isabs ''/path/to/file'' \<and>
   path2uri example_env ''/path/to/file'' = ''file:///path/to/file'' \<and>
   startswith ''~/a'' ''~'' \<and> expanduser example_env ''~/a'' = ''/home/u/a'' \<and>
   path2uri example_env ''~/a'' = ''file:///home/u/a''"
proof -
  have a: "\<not> startswith ''invalid/path'' ''~''" "\<not> os_path_isabs ''invalid/path''"
    by code_simp+
  have b: "\<not> startswith ''/path/to/file'' ''~''" "os_path_isabs ''/path/to/file''"
    by code_simp+
  have c: "startswith ''~/a'' ''~''" "expanduser example_env ''~/a'' = ''/home/u/a''"
    "os_path_isabs ''/home/u/a''"
    by code_simp+
  have q: "pathname2url example_env = (\<lambda>p. p)" by (simp add: example_env_def)
  from path2uri_after_expanduser [of "''invalid/path''" example_env]
    path2uri_after_expanduser [of "''/path/to/file''" example_env]
    path2uri_after_expanduser [of "''~/a''" example_env] a b c
  show ?thesis by (simp add: q)
qed


text \<open>Saving leaves the association store, the signals and the current track alone.\<close>

lemma same_service_state_refl [simp]: "same_service_state w w"
  by (simp add: same_service_state_def)

lemma same_service_state_trans:
  "same_service_state w w1 \<Longrightarrow> same_service_state w1 w2 \<Longrightarrow> same_service_state w w2"
  by (simp add: same_service_state_def)

lemma sys_isfile_frame: "sys_isfile env p w = (b, w') \<Longrightarrow> same_service_state w w'"
  by (auto simp: sys_isfile_def same_service_state_def)

lemma sys_isdir_frame: "sys_isdir env p w = (b, w') \<Longrightarrow> same_service_state w w'"
  by (auto simp: sys_isdir_def same_service_state_def)

lemma sys_makedirs_frame: "sys_makedirs env p w = (b, w') \<Longrightarrow> same_service_state w w'"
  by (auto simp: sys_makedirs_def same_service_state_def split: sum.splits option.splits)

lemma sys_open_write_frame: "sys_open_write env p c w = (b, w') \<Longrightarrow> same_service_state w w'"
  by (auto simp: sys_open_write_def same_service_state_def split: sum.splits option.splits)

lemma save_to_file_frame:
  assumes "save_to_file env urlparts content create w = (b, w')"
  shows "same_service_state w w'"
proof -
  define p where "p = url2pathname env (path urlparts)"
  show ?thesis
  proof (cases create)
    case False
    obtain i w1 where i: "sys_isfile env p w = (i, w1)"
      by (cases "sys_isfile env p w")
    from sys_isfile_frame [OF i] have f1: "same_service_state w w1" .
    show ?thesis
    proof (cases i)
      case True
      with assms False i have "sys_open_write env p content w1 = (b, w')"
        by (simp add: save_to_file_def Let_def p_def)
      from f1 sys_open_write_frame [OF this] show ?thesis by (rule same_service_state_trans)
    next
      case False
      with assms \<open>\<not> create\<close> i have "w' = w1" by (simp add: save_to_file_def Let_def p_def)
      with f1 show ?thesis by simp
    qed
  next
    case True
    obtain i w1 where i: "sys_isdir env (os_path_dirname p) w = (i, w1)"
      by (cases "sys_isdir env (os_path_dirname p) w")
    from sys_isdir_frame [OF i] have f1: "same_service_state w w1" .
    show ?thesis
    proof (cases i)
      case True
      with assms \<open>create\<close> i have "sys_open_write env p content w1 = (b, w')"
        by (simp add: save_to_file_def Let_def p_def)
      from f1 sys_open_write_frame [OF this] show ?thesis by (rule same_service_state_trans)
    next
      case False
      obtain m w2 where m: "sys_makedirs env (os_path_dirname p) w1 = (m, w2)"
        by (cases "sys_makedirs env (os_path_dirname p) w1")
      from f1 sys_makedirs_frame [OF m] have f2: "same_service_state w w2"
        by (rule same_service_state_trans)
      show ?thesis
      proof (cases "m = Inr True")
        case True
        with assms \<open>create\<close> i \<open>\<not> i\<close> m have "sys_open_write env p content w2 = (b, w')"
          by (simp add: save_to_file_def Let_def p_def)
        from f2 sys_open_write_frame [OF this] show ?thesis by (rule same_service_state_trans)
      next
        case False
        with assms \<open>create\<close> i \<open>\<not> i\<close> m have "w' = w2"
          by (auto simp: save_to_file_def Let_def p_def split: sum.splits if_splits)
        with f2 show ?thesis by simp
      qed
    qed
  qed
qed

lemma URI_SAVE_HANDLERS_cases:
  "URI_SAVE_HANDLERS s = Some h \<Longrightarrow>
     h = save_to_file \<or> h = (\<lambda>env urlparts content create w. (Inr True, w))"
  by (auto simp: URI_SAVE_HANDLERS_def split: if_splits)

lemma save_to_uri_frame:
  assumes "save_to_uri env uri content create w = (r, w')"
  shows "same_service_state w w'"
proof (cases "urlparse env uri")
  case (Inl err)
  with assms have "w' = w" by (simp add: save_to_uri_def)
  then show ?thesis by simp
next
  case (Inr parts)
  show ?thesis
  proof (cases "URI_SAVE_HANDLERS (scheme parts) ::
      (('a, 'b, 'c) env \<Rightarrow> urlparts \<Rightarrow> bytes \<Rightarrow> bool \<Rightarrow> ('a, 'b, 'c) world \<Rightarrow>
         (error + bool) \<times> ('a, 'b, 'c) world) option")
    case None
    with assms Inr have "w' = w" by (simp add: save_to_uri_def)
    then show ?thesis by simp
  next
    case (Some h)
    with assms Inr have h: "h env parts content create w = (r, w')"
      by (simp add: save_to_uri_def)
    from URI_SAVE_HANDLERS_cases [OF Some] show ?thesis
    proof
      assume "h = save_to_file"
      with h show ?thesis using save_to_file_frame by blast
    next
      assume "h = (\<lambda>env urlparts content create w. (Inr True, w))"
      with h show ?thesis by simp
    qed
  qed
qed

lemma save_to_patterns_files_frame:
  "save_to_patterns_files env metadata content dir file_pats w = (r, w') \<Longrightarrow>
     same_service_state w w'"
proof (induction file_pats arbitrary: w)
  case Nil
  then show ?case by simp
next
  case (Cons file_pat file_pats)
  show ?case
  proof (cases "expand_file env file_pat metadata")
    case None
    with Cons.prems have "save_to_patterns_files env metadata content dir file_pats w = (r, w')"
      by simp
    then show ?thesis by (rule Cons.IH)
  next
    case (Some filename)
    define uri where "uri = path2uri env (os_path_join dir (filename @ ''.lrc''))"
    obtain sr w1 where sv: "save_to_uri env uri content True w = (sr, w1)"
      by (cases "save_to_uri env uri content True w")
    from save_to_uri_frame [OF sv] have f1: "same_service_state w w1" .
    show ?thesis
    proof (cases sr)
      case (Inl err)
      with Cons.prems Some sv have "w' = w1" by (simp add: Let_def uri_def)
      with f1 show ?thesis by simp
    next
      case (Inr saved)
      show ?thesis
      proof (cases saved)
        case True
        with Cons.prems Some sv Inr have "w' = w1" by (simp add: Let_def uri_def)
        with f1 show ?thesis by simp
      next
        case False
        with Cons.prems Some sv Inr
        have "save_to_patterns_files env metadata content dir file_pats w1 = (r, w')"
          by (simp add: Let_def uri_def)
        from Cons.IH [OF this] f1 show ?thesis by (rule same_service_state_trans [rotated])
      qed
    qed
  qed
qed

lemma save_to_patterns_paths_frame:
  "save_to_patterns_paths env metadata content file_patterns path_pats w = (r, w') \<Longrightarrow>
     same_service_state w w'"
proof (induction path_pats arbitrary: w)
  case Nil
  then show ?case by simp
next
  case (Cons path_pat path_pats)
  show ?case
  proof (cases "expand_path env path_pat metadata")
    case None
    with Cons.prems
    have "save_to_patterns_paths env metadata content file_patterns path_pats w = (r, w')"
      by simp
    then show ?thesis by (rule Cons.IH)
  next
    case (Some dir)
    obtain fr w1 where fr: "save_to_patterns_files env metadata content dir file_patterns w = (fr, w1)"
      by (cases "save_to_patterns_files env metadata content dir file_patterns w")
    from save_to_patterns_files_frame [OF fr] have f1: "same_service_state w w1" .
    show ?thesis
    proof (cases "fr = Inr None")
      case True
      with Cons.prems Some fr
      have "save_to_patterns_paths env metadata content file_patterns path_pats w1 = (r, w')"
        by simp
      from Cons.IH [OF this] f1 show ?thesis by (rule same_service_state_trans [rotated])
    next
      case False
      with Cons.prems Some fr have "w' = w1"
        by (auto split: sum.splits option.splits)
      with f1 show ?thesis by simp
    qed
  qed
qed

lemma save_to_patterns_frame:
  "save_to_patterns env metadata content w = (r, w') \<Longrightarrow> same_service_state w w'"
  unfolding save_to_patterns_def Let_def by (rule save_to_patterns_paths_frame)

text \<open>
  Claim C9. \<open>SetLyricContent\<close> deletes the entry of the metadata before it tries to
  save, and nothing restores it: whatever the outcome, the store in the final state
  is the store of the initial state after \<open>delete(metadata)\<close>; when the result is the
  empty string (every candidate failed) no signal has been emitted. With a store in
  which a deleted entry is not found, \<open>find(metadata)\<close> gives nothing afterwards.
\<close>

theorem SetLyricContent_not_atomic:
  assumes "SetLyricContent env metadata content w = (r, w')"
  shows "db w' = db_delete env (db w) metadata \<and>
         (r = Inr [] \<longrightarrow> signals w' = signals w) \<and>
         ((\<forall>d. db_find env (db_delete env d metadata) metadata = None) \<longrightarrow>
            db_find env (db w') metadata = None)"
proof -
  define w1 where "w1 = w\<lparr>db := db_delete env (db w) metadata\<rparr>"
  obtain sr w2 where sv: "save_to_patterns env metadata (rstrip 0 content) w1 = (sr, w2)"
    by (cases "save_to_patterns env metadata (rstrip 0 content) w1")
  from save_to_patterns_frame [OF sv] have f: "same_service_state w1 w2" .
  have d: "db w' = db_delete env (db w) metadata"
  proof (cases sr)
    case (Inl err)
    with assms sv have "w' = w2" by (simp add: SetLyricContent_def Let_def w1_def)
    with f show ?thesis by (simp add: same_service_state_def w1_def)
  next
    case (Inr uri)
    with assms sv have "w' = w2 \<or> w' = CurrentLyricsChanged w2"
      by (auto simp: SetLyricContent_def Let_def w1_def split: if_splits)
    with f show ?thesis
      by (auto simp: same_service_state_def w1_def CurrentLyricsChanged_def)
  qed
  have s: "signals w' = signals w" if "r = Inr []"
  proof -
    from assms sv that have "w' = w2"
      by (auto simp: SetLyricContent_def Let_def w1_def split: sum.splits if_splits)
    with f show ?thesis by (simp add: same_service_state_def w1_def)
  qed
  from d s show ?thesis by simp
qed

lemma example_db_delete: "map_of (filter (\<lambda>e. fst e \<noteq> m) d) m = None"
  by (induction d) auto

theorem SetLyricContent_not_atomic_witness:
  "SetLyricContent readonly_env ''song'' [0x68, 0x69, 0, 0]
       (example_world [(''song'', ''file:///old.lrc'')] []) =
     (Inr [], (example_world [] [])\<lparr>trace :=
        [IsDir ''/home/u/.lyrics'', OpenWrite ''/home/u/.lyrics/song.lrc'']\<rparr>) \<and>
   db_find readonly_env (db (example_world [(''song'', ''file:///old.lrc'')] [])) ''song'' =
     Some ''file:///old.lrc'' \<and>
   (\<forall>d. db_find readonly_env (db_delete readonly_env d ''song'') ''song'' = None) \<and>
   db_find readonly_env
     (db ((example_world [] [])\<lparr>trace :=
        [IsDir ''/home/u/.lyrics'', OpenWrite ''/home/u/.lyrics/song.lrc'']\<rparr>)) ''song'' = None \<and>
   signals ((example_world [] [])\<lparr>trace :=
        [IsDir ''/home/u/.lyrics'', OpenWrite ''/home/u/.lyrics/song.lrc'']\<rparr>) = 0"
proof -
  have r: "SetLyricContent readonly_env ''song'' [0x68, 0x69, 0, 0]
       (example_world [(''song'', ''file:///old.lrc'')] []) =
     (Inr [], (example_world [] [])\<lparr>trace :=
        [IsDir ''/home/u/.lyrics'', OpenWrite ''/home/u/.lyrics/song.lrc'']\<rparr>)"
    by code_simp
  have b: "db_find readonly_env (db (example_world [(''song'', ''file:///old.lrc'')] [])) ''song'' =
     Some ''file:///old.lrc''"
    by code_simp
  have c: "\<forall>d. db_find readonly_env (db_delete readonly_env d ''song'') ''song'' = None"
    by (simp add: readonly_env_def example_env_def example_db_delete)
  from SetLyricContent_not_atomic [OF r] r b c show ?thesis
    by (simp add: example_world_def)
qed


text \<open>\<open>GetRawLyrics\<close> where every load returns: the recorded URI first, then the search
  by pattern.\<close>

lemma GetRawLyrics_by_pattern_found:
  assumes "find_lrc_by_pattern env metadata w1 = (Inr (Some puri), w2)" and "puri \<noteq> []"
    and "load_from_uri env puri w2 = (Inr (Some lrc), w3)"
  shows "GetRawLyrics_by_pattern env metadata w1 = (Inr (True, puri, lrc), w3)"
  using assms by (simp add: GetRawLyrics_by_pattern_def truthy_def)

lemma GetRawLyrics_by_pattern_nothing:
  assumes "no_pattern_content env metadata w1 w2"
  shows "GetRawLyrics_by_pattern env metadata w1 = (Inr (False, [], []), w2)"
  using assms
  by (auto simp: no_pattern_content_def GetRawLyrics_by_pattern_def truthy_def split: option.splits)

lemma GetRawLyrics_falls_back:
  assumes "no_recorded_content env metadata w w1"
  shows "GetRawLyrics env metadata w = GetRawLyrics_by_pattern env metadata w1"
  using assms
  by (auto simp: no_recorded_content_def GetRawLyrics_def truthy_def split: option.splits)

lemma GetRawLyrics_resolution:
  "(find_lrc_from_db env metadata w = Inr (Some ''none:'') \<longrightarrow>
      GetRawLyrics env metadata w = (Inr (True, ''none:'', []), w)) \<and>
   (find_lrc_from_db env metadata w = Inr (Some uri) \<and> uri \<noteq> [] \<and> uri \<noteq> ''none:'' \<and>
    load_from_uri env uri w = (Inr (Some lrc), w1) \<longrightarrow>
      GetRawLyrics env metadata w = (Inr (True, uri, lrc), w1)) \<and>
   (no_recorded_content env metadata w w1 \<and>
    find_lrc_by_pattern env metadata w1 = (Inr (Some puri), w2) \<and> puri \<noteq> [] \<and>
    load_from_uri env puri w2 = (Inr (Some lrc), w3) \<longrightarrow>
      GetRawLyrics env metadata w = (Inr (True, puri, lrc), w3)) \<and>
   (no_recorded_content env metadata w w1 \<and> no_pattern_content env metadata w1 w2 \<longrightarrow>
      GetRawLyrics env metadata w = (Inr (False, [], []), w2))"
proof (intro conjI impI)
  assume "find_lrc_from_db env metadata w = Inr (Some ''none:'')"
  then show "GetRawLyrics env metadata w = (Inr (True, ''none:'', []), w)"
    by (simp add: GetRawLyrics_def truthy_def)
next
  assume "find_lrc_from_db env metadata w = Inr (Some uri) \<and> uri \<noteq> [] \<and> uri \<noteq> ''none:'' \<and>
    load_from_uri env uri w = (Inr (Some lrc), w1)"
  then show "GetRawLyrics env metadata w = (Inr (True, uri, lrc), w1)"
    by (simp add: GetRawLyrics_def truthy_def)
next
  assume a: "no_recorded_content env metadata w w1 \<and>
    find_lrc_by_pattern env metadata w1 = (Inr (Some puri), w2) \<and> puri \<noteq> [] \<and>
    load_from_uri env puri w2 = (Inr (Some lrc), w3)"
  then have "GetRawLyrics env metadata w = GetRawLyrics_by_pattern env metadata w1"
    by (simp add: GetRawLyrics_falls_back)
  also from a have "\<dots> = (Inr (True, puri, lrc), w3)"
    by (simp add: GetRawLyrics_by_pattern_found)
  finally show "GetRawLyrics env metadata w = (Inr (True, puri, lrc), w3)" .
next
  assume a: "no_recorded_content env metadata w w1 \<and> no_pattern_content env metadata w1 w2"
  then have "GetRawLyrics env metadata w = GetRawLyrics_by_pattern env metadata w1"
    by (simp add: GetRawLyrics_falls_back)
  also from a have "\<dots> = (Inr (False, [], []), w2)"
    by (simp add: GetRawLyrics_by_pattern_nothing)
  finally show "GetRawLyrics env metadata w = (Inr (False, [], []), w2)" .
qed

lemma GetRawLyrics_resolution_examples:
  "find_lrc_from_db example_env ''song'' (example_world [(''song'', [])] song_file) = Inr (Some ''none:'') \<and>
   GetRawLyrics example_env ''song'' (example_world [(''song'', [])] song_file) =
     (Inr (True, ''none:'', []), example_world [(''song'', [])] song_file) \<and>
   find_lrc_from_db example_env ''song''
     (example_world [(''song'', ''/a.lrc'')] [(''/a.lrc'', [0x61])]) = Inr (Some ''file:///a.lrc'') \<and>
   load_from_uri example_env ''file:///a.lrc''
     (example_world [(''song'', ''/a.lrc'')] [(''/a.lrc'', [0x61])]) =
     (Inr (Some ''a''),
      (example_world [(''song'', ''/a.lrc'')] [(''/a.lrc'', [0x61])])\<lparr>trace := [OpenRead ''/a.lrc'']\<rparr>) \<and>
   GetRawLyrics example_env ''song''
     (example_world [(''song'', ''/a.lrc'')] [(''/a.lrc'', [0x61])]) =
     (Inr (True, ''file:///a.lrc'', ''a''),
      (example_world [(''song'', ''/a.lrc'')] [(''/a.lrc'', [0x61])])\<lparr>trace := [OpenRead ''/a.lrc'']\<rparr>) \<and>
   no_recorded_content example_env ''song''
     (example_world [(''song'', ''file:///gone.lrc'')] song_file)
     ((example_world [(''song'', ''file:///gone.lrc'')] song_file)\<lparr>trace := [OpenRead ''/gone.lrc'']\<rparr>) \<and>
   GetRawLyrics example_env ''song'' (example_world [(''song'', ''file:///gone.lrc'')] song_file) =
     (Inr (True, ''file:///home/u/.lyrics/song.lrc'', ''hi''),
      (example_world [(''song'', ''file:///gone.lrc'')] song_file)\<lparr>trace :=
         [OpenRead ''/gone.lrc'', IsFile ''/home/u/.lyrics/song.lrc'',
          OpenRead ''/home/u/.lyrics/song.lrc'']\<rparr>) \<and>
   no_recorded_content example_env ''song'' (example_world [] []) (example_world [] []) \<and>
   no_pattern_content example_env ''song'' (example_world [] [])
     ((example_world [] [])\<lparr>trace := [IsFile ''/home/u/.lyrics/song.lrc'']\<rparr>) \<and>
   GetRawLyrics example_env ''song'' (example_world [] []) =
     (Inr (False, [], []), (example_world [] [])\<lparr>trace := [IsFile ''/home/u/.lyrics/song.lrc'']\<rparr>)"
proof -
  define wn where "wn = example_world [(''song'', [])] song_file"
  define wa where "wa = example_world [(''song'', ''/a.lrc'')] [(''/a.lrc'', [0x61])]"
  define wg where "wg = example_world [(''song'', ''file:///gone.lrc'')] song_file"
  define we where "we = example_world ([] :: (string \<times> string) list) ([] :: (string \<times> bytes) list)"
  have n1: "find_lrc_from_db example_env ''song'' wn = Inr (Some ''none:'')"
    unfolding wn_def by code_simp
  have a1: "find_lrc_from_db example_env ''song'' wa = Inr (Some ''file:///a.lrc'')"
    unfolding wa_def by code_simp
  have a2: "load_from_uri example_env ''file:///a.lrc'' wa =
      (Inr (Some ''a''), wa\<lparr>trace := [OpenRead ''/a.lrc'']\<rparr>)"
    unfolding wa_def by code_simp
  have g1: "find_lrc_from_db example_env ''song'' wg = Inr (Some ''file:///gone.lrc'')"
    unfolding wg_def by code_simp
  have g2: "load_from_uri example_env ''file:///gone.lrc'' wg =
      (Inr None, wg\<lparr>trace := [OpenRead ''/gone.lrc'']\<rparr>)"
    unfolding wg_def by code_simp
  have g3: "no_recorded_content example_env ''song'' wg (wg\<lparr>trace := [OpenRead ''/gone.lrc'']\<rparr>)"
    unfolding no_recorded_content_def using g1 g2 by simp
  have g4: "find_lrc_by_pattern example_env ''song'' (wg\<lparr>trace := [OpenRead ''/gone.lrc'']\<rparr>) =
      (Inr (Some ''file:///home/u/.lyrics/song.lrc''),
       wg\<lparr>trace := [OpenRead ''/gone.lrc'', IsFile ''/home/u/.lyrics/song.lrc'']\<rparr>)"
    unfolding wg_def by code_simp
  have g5: "load_from_uri example_env ''file:///home/u/.lyrics/song.lrc''
       (wg\<lparr>trace := [OpenRead ''/gone.lrc'', IsFile ''/home/u/.lyrics/song.lrc'']\<rparr>) =
      (Inr (Some ''hi''),
       wg\<lparr>trace := [OpenRead ''/gone.lrc'', IsFile ''/home/u/.lyrics/song.lrc'',
          OpenRead ''/home/u/.lyrics/song.lrc'']\<rparr>)"
    unfolding wg_def by code_simp
  have e1: "find_lrc_from_db example_env ''song'' we = Inr None"
    unfolding we_def by code_simp
  then have e2: "no_recorded_content example_env ''song'' we we"
    by (simp add: no_recorded_content_def truthy_def)
  have e3: "find_lrc_by_pattern example_env ''song'' we =
      (Inr None, we\<lparr>trace := [IsFile ''/home/u/.lyrics/song.lrc'']\<rparr>)"
    unfolding we_def by code_simp
  then have e4: "no_pattern_content example_env ''song'' we
      (we\<lparr>trace := [IsFile ''/home/u/.lyrics/song.lrc'']\<rparr>)"
    by (simp add: no_pattern_content_def truthy_def)
  from GetRawLyrics_resolution [of example_env "''song''" wn]
  have rn: "GetRawLyrics example_env ''song'' wn = (Inr (True, ''none:'', []), wn)"
    using n1 by blast
  from GetRawLyrics_resolution [of example_env "''song''" wa "''file:///a.lrc''" "''a''"
      "wa\<lparr>trace := [OpenRead ''/a.lrc'']\<rparr>"]
  have ra: "GetRawLyrics example_env ''song'' wa =
      (Inr (True, ''file:///a.lrc'', ''a''), wa\<lparr>trace := [OpenRead ''/a.lrc'']\<rparr>)"
    using a1 a2 by simp
  from GetRawLyrics_resolution [of example_env "''song''" wg _ "''hi''"
      "wg\<lparr>trace := [OpenRead ''/gone.lrc'']\<rparr>" "''file:///home/u/.lyrics/song.lrc''"
      "wg\<lparr>trace := [OpenRead ''/gone.lrc'', IsFile ''/home/u/.lyrics/song.lrc'']\<rparr>"
      "wg\<lparr>trace := [OpenRead ''/gone.lrc'', IsFile ''/home/u/.lyrics/song.lrc'',
          OpenRead ''/home/u/.lyrics/song.lrc'']\<rparr>"]
  have rg: "GetRawLyrics example_env ''song'' wg =
      (Inr (True, ''file:///home/u/.lyrics/song.lrc'', ''hi''),
       wg\<lparr>trace := [OpenRead ''/gone.lrc'', IsFile ''/home/u/.lyrics/song.lrc'',
          OpenRead ''/home/u/.lyrics/song.lrc'']\<rparr>)"
    using g3 g4 g5 by simp
  from GetRawLyrics_resolution [of example_env "''song''" we _ _ we _
      "we\<lparr>trace := [IsFile ''/home/u/.lyrics/song.lrc'']\<rparr>"]
  have re: "GetRawLyrics example_env ''song'' we =
      (Inr (False, [], []), we\<lparr>trace := [IsFile ''/home/u/.lyrics/song.lrc'']\<rparr>)"
    using e2 e4 by simp
  from n1 rn a1 a2 ra g3 rg e2 e4 re show ?thesis
    unfolding wn_def wa_def wg_def we_def by simp
qed

text \<open>What the load of the recorded URI raises, \<open>GetRawLyrics\<close> raises.\<close>

lemma GetRawLyrics_load_raises:
  assumes "find_lrc_from_db env metadata w = Inr (Some uri)" and "uri \<noteq> []" and "uri \<noteq> ''none:''"
    and "load_from_uri env uri w = (Inl err, w1)"
  shows "GetRawLyrics env metadata w = (Inl err, w1)"
  using assms by (simp add: GetRawLyrics_def truthy_def)

text \<open>
  Claim C1 (the code raises). \<open>GetRawLyrics\<close> is claimed, for every metadata, to fall
  back to the search by pattern when the load of the recorded URI fails and to return
  \<open>(False, '', '')\<close> when neither source gives a content, so that a record never hides
  a file that matches the patterns. Neither call of \<open>load_from_uri\<close> stands in a
  \<open>try\<close>. With the file of the title pattern in place, which is returned when nothing
  is recorded, a record \<open>rel.lrc\<close> (a relative path, left without a scheme) makes the
  load raise \<open>KeyError\<close>, and a recorded file of forty-one bytes in which no encoding is
  detected makes it raise \<open>TypeError\<close>; \<open>GetRawLyrics\<close> raises both, and the file that
  matches the pattern is not returned.
\<close>

theorem GetRawLyrics_raises:
  "GetRawLyrics example_env ''song'' (example_world [] song_file) =
     (Inr (True, ''file:///home/u/.lyrics/song.lrc'', ''hi''),
      (example_world [] song_file)\<lparr>trace :=
         [IsFile ''/home/u/.lyrics/song.lrc'', OpenRead ''/home/u/.lyrics/song.lrc'']\<rparr>) \<and>
   GetRawLyrics example_env ''song'' (example_world [(''song'', ''rel.lrc'')] song_file) =
     (Inl (KeyError []), example_world [(''song'', ''rel.lrc'')] song_file) \<and>
   GetRawLyrics example_env ''song''
       (example_world [(''song'', ''file:///x.lrc'')] ((''/x.lrc'', garbled) # song_file)) =
     (Inl TypeError,
      (example_world [(''song'', ''file:///x.lrc'')] ((''/x.lrc'', garbled) # song_file))\<lparr>trace :=
         [OpenRead ''/x.lrc'']\<rparr>)"
proof -
  have a: "GetRawLyrics example_env ''song'' (example_world [] song_file) =
     (Inr (True, ''file:///home/u/.lyrics/song.lrc'', ''hi''),
      (example_world [] song_file)\<lparr>trace :=
         [IsFile ''/home/u/.lyrics/song.lrc'', OpenRead ''/home/u/.lyrics/song.lrc'']\<rparr>)"
    by code_simp
  have b: "GetRawLyrics example_env ''song'' (example_world [(''song'', ''rel.lrc'')] song_file) =
     (Inl (KeyError []), example_world [(''song'', ''rel.lrc'')] song_file)"
    by code_simp
  have c: "GetRawLyrics example_env ''song''
       (example_world [(''song'', ''file:///x.lrc'')] ((''/x.lrc'', garbled) # song_file)) =
     (Inl TypeError,
      (example_world [(''song'', ''file:///x.lrc'')] ((''/x.lrc'', garbled) # song_file))\<lparr>trace :=
         [OpenRead ''/x.lrc'']\<rparr>)"
    by code_simp
  from a b c show ?thesis by (intro conjI)
qed


end
